theory Spec2Isabelle
  imports Main "HOL-Library.Word"
begin

text \<open>
  A shallow embedding of the Backlog Quick browser extension: the REST client
  (\<open>lib/backlog-api\<close>), the background screenshot service, the popup's capture handler
  and hand-off to Backlog's own page, and the content script that fills that page's
  form from the staged record. Pure functions are HOL functions; a thrown value or a
  rejected promise is the left summand of a sum; the browser, the network and the page
  are records of the answers they give; the content script runs in a world that is
  passed along and returned. The definitions come first, the properties follow.
\<close>

section \<open>JavaScript strings\<close>

text \<open>
  A JavaScript string is a sequence of UTF-16 code units. ASCII literals of the source
  are written \<open>js ''...''\<close>; truthiness of a string is non-emptiness.
\<close>

type_synonym code_unit = "16 word"
type_synonym js_string = "code_unit list"

definition js :: "string \<Rightarrow> js_string" where
  "js s = map of_char s"

definition truthy :: "js_string \<Rightarrow> bool" where
  "truthy s \<longleftrightarrow> s \<noteq> []"

text \<open>The regular-expression atom \<open>.\<close> matches every code unit except the four line
  terminators LF, CR, U+2028 and U+2029.\<close>

definition is_line_terminator :: "code_unit \<Rightarrow> bool" where
  "is_line_terminator c \<longleftrightarrow> c = 0x0A \<or> c = 0x0D \<or> c = 0x2028 \<or> c = 0x2029"

section \<open>REST client (lib/backlog-api)\<close>

text \<open>
  A thrown value, with its \<open>name\<close> and \<open>message\<close> when it has them:
  \<^item> \<open>Error\<close>: an instance of \<open>Error\<close> or of a subclass of the language (\<open>TypeError\<close>,
    \<open>SyntaxError\<close>), whose \<open>message\<close> is an own, writable property;
  \<^item> \<open>DOMException\<close>: a platform exception, an instance of \<open>Error\<close> too, whose
    \<open>message\<close> is an accessor without a setter;
  \<^item> \<open>NonError\<close>: a primitive other than \<open>null\<close> and \<open>undefined\<close>; its \<open>message\<close> is
    undefined;
  \<^item> \<open>Nullish\<close>: \<open>null\<close> or \<open>undefined\<close>; reading its \<open>message\<close> throws.
\<close>

datatype thrown =
    Error (err_name: js_string) (message: js_string)
  | DOMException (err_name: js_string) (message: js_string)
  | NonError
  | Nullish

definition instanceof_Error :: "thrown \<Rightarrow> bool" where
  "instanceof_Error e =
     (case e of Error n m \<Rightarrow> True | DOMException n m \<Rightarrow> True | NonError \<Rightarrow> False
      | Nullish \<Rightarrow> False)"

definition new_Error :: "js_string \<Rightarrow> thrown" where
  "new_Error msg = Error (js ''Error'') msg"

record BacklogAPIClient =
  baseURL :: js_string
  apiKey :: js_string
  defaultTimeout :: nat

definition BacklogAPIClient_constructor :: "js_string \<Rightarrow> js_string \<Rightarrow> thrown + BacklogAPIClient" where
  "BacklogAPIClient_constructor space key =
     (if \<not> truthy space \<or> \<not> truthy key
      then Inl (new_Error (js ''Backlog API credentials are required''))
      else Inr \<lparr>baseURL = js ''https://'' @ space @ js ''/api/v2'',
                apiKey = key, defaultTimeout = 30000\<rparr>)"

subsection \<open>\<open>getIssueUrl\<close>: the match of \<open>/https:\/\/(.+)\/api/\<close>\<close>

text \<open>
  \<open>backtrack_api k rest\<close> is the greedy group \<open>(.+)\<close> followed by the literal
  \<open>/api\<close>: it tries the capture lengths \<open>k, k - 1, ..., 1\<close> in this order and
  returns the first capture that is followed by \<open>/api\<close>.
  \<open>match_space_at\<close> is the match attempt at the start of its argument (the literal
  \<open>https://\<close>, then the group over the longest run free of line terminators), and
  \<open>match_space\<close> tries every start position from the left, as \<open>String.match\<close>
  does; its result is capture group 1.
\<close>

fun backtrack_api :: "nat \<Rightarrow> js_string \<Rightarrow> js_string option" where
  "backtrack_api 0 rest = None"
| "backtrack_api (Suc k) rest =
     (if take 4 (drop (Suc k) rest) = js ''/api'' then Some (take (Suc k) rest)
      else backtrack_api k rest)"

definition match_space_at :: "js_string \<Rightarrow> js_string option" where
  "match_space_at s =
     (if take 8 s = js ''https://''
      then backtrack_api (length (takeWhile (\<lambda>c. \<not> is_line_terminator c) (drop 8 s))) (drop 8 s)
      else None)"

fun match_space :: "js_string \<Rightarrow> js_string option" where
  "match_space [] = None"
| "match_space (c # cs) =
     (case match_space_at (c # cs) of Some g \<Rightarrow> Some g | None \<Rightarrow> match_space cs)"

definition getIssueUrl :: "BacklogAPIClient \<Rightarrow> js_string \<Rightarrow> js_string" where
  "getIssueUrl client issueKey =
     (let space = (case match_space (baseURL client) of
                     Some g \<Rightarrow> if truthy g then g else js ''''
                   | None \<Rightarrow> js '''')
      in js ''https://'' @ space @ js ''/view/'' @ issueKey)"

subsection \<open>String helpers used by the client\<close>

text \<open>
  \<open>String(n)\<close> for a non-negative integer below \<open>10^21\<close>: its decimal digits. (From
  \<open>10^21\<close> on JavaScript prints an exponent; status codes and project ids are far
  below.)
\<close>

definition digit :: "nat \<Rightarrow> code_unit" where
  "digit d = of_nat (48 + d)"

fun String_nat :: "nat \<Rightarrow> js_string" where
  "String_nat n = (if n < 10 then [digit n] else String_nat (n div 10) @ [digit (n mod 10)])"

declare String_nat.simps [simp del]

text \<open>\<open>Array.prototype.join\<close> on an array of strings.\<close>

fun join :: "js_string \<Rightarrow> js_string list \<Rightarrow> js_string" where
  "join sep [] = []"
| "join sep [x] = x"
| "join sep (x # y # ys) = x @ sep @ join sep (y # ys)"

text \<open>\<open>String.prototype.includes\<close>, here \<open>str_includes\<close>.\<close>

fun str_includes :: "js_string \<Rightarrow> js_string \<Rightarrow> bool" where
  "str_includes [] p = (p = [])"
| "str_includes (c # cs) p = (take (length p) (c # cs) = p \<or> str_includes cs p)"

subsection \<open>Responses and the platform's \<open>fetch\<close>\<close>

text \<open>
  The value \<open>response.json()\<close> resolves to is read through the two casts of the source:
  as \<open>{ errors?: { message: string }[] }\<close> (field \<open>errors\<close>: \<open>None\<close> when the member is
  missing or the body is \<open>null\<close>, otherwise the \<open>message\<close> of each element) and as the
  result type \<open>T\<close> (field \<open>data\<close>). \<open>json = Inl e\<close> is a body that cannot be parsed.
  \<open>response.ok\<close> is a status in the range 200 to 299.
\<close>

record 'd json_value =
  errors :: "js_string list option"
  data :: 'd

record 'd Response =
  status :: nat
  json :: "thrown + 'd json_value"

definition ok :: "'d Response \<Rightarrow> bool" where
  "ok response \<longleftrightarrow> 200 \<le> status response \<and> status response \<le> 299"

text \<open>
  A \<open>URL\<close> object: the string it was parsed from and the pairs appended to its
  \<open>searchParams\<close>, in order. A \<open>Blob\<close> keeps its bytes and its type; the constructors
  lower-case the type and replace it by the empty string when it holds a code unit
  outside U+0020 to U+007E.
\<close>

record URL =
  href :: js_string
  searchParams :: "(js_string \<times> js_string) list"

record Blob =
  bytes :: "8 word list"
  blob_type :: js_string

record File =
  file_bytes :: "8 word list"
  file_name :: js_string
  file_type :: js_string

definition ascii_lower :: "code_unit \<Rightarrow> code_unit" where
  "ascii_lower c = (if 0x41 \<le> c \<and> c \<le> 0x5A then c + 0x20 else c)"

definition normalize_type :: "js_string \<Rightarrow> js_string" where
  "normalize_type t = (if \<exists>c \<in> set t. c < 0x20 \<or> 0x7E < c then [] else map ascii_lower t)"

definition new_Blob :: "8 word list \<Rightarrow> js_string \<Rightarrow> Blob" where
  "new_Blob u8arr t = \<lparr>bytes = u8arr, blob_type = normalize_type t\<rparr>"

definition new_File :: "Blob \<Rightarrow> js_string \<Rightarrow> js_string \<Rightarrow> File" where
  "new_File blob filename t =
     \<lparr>file_bytes = bytes blob, file_name = filename, file_type = normalize_type t\<rparr>"

datatype req_body = UrlEncoded "(js_string \<times> js_string) list" | Multipart "(js_string \<times> File) list"

record FetchRequest =
  url :: URL
  req_method :: "js_string option"
  req_headers :: "(js_string \<times> js_string) list"
  req_body :: "req_body option"
  req_timeout :: nat

text \<open>
  The platform: which strings the URL parser accepts, how a URL is serialised, and what
  \<open>fetch\<close> does with a request (a response, or a rejection; an abort by the timeout is
  a rejection whose name is \<open>AbortError\<close>).
\<close>

record 'd Net =
  valid_url :: "js_string \<Rightarrow> bool"
  url_toString :: "URL \<Rightarrow> js_string"
  fetch :: "FetchRequest \<Rightarrow> thrown + 'd Response"

definition new_URL :: "'d Net \<Rightarrow> js_string \<Rightarrow> thrown + URL" where
  "new_URL net s =
     (if valid_url net s then Inr \<lparr>href = s, searchParams = []\<rparr>
      else Inl (Error (js ''TypeError'') (js ''Invalid URL'')))"

definition searchParams_append :: "URL \<Rightarrow> js_string \<Rightarrow> js_string \<Rightarrow> URL" where
  "searchParams_append u k v = u\<lparr>searchParams := searchParams u @ [(k, v)]\<rparr>"

record FetchOptions =
  params :: "(js_string \<times> js_string option) list"
  timeout :: "nat option"
  opt_method :: "js_string option"
  opt_headers :: "(js_string \<times> js_string) list"
  opt_body :: "req_body option"

definition no_options :: FetchOptions where
  "no_options = \<lparr>params = [], timeout = None, opt_method = None, opt_headers = [], opt_body = None\<rparr>"

subsection \<open>\<open>fetchWithTimeout\<close>, \<open>handleErrorResponse\<close>, \<open>request\<close>\<close>

text \<open>
  The \<open>catch\<close> block of \<open>fetchWithTimeout\<close> assigns to \<open>error.message\<close>. The method
  is class code, hence strict: on a \<open>DOMException\<close> the assignment itself throws a
  \<open>TypeError\<close> (the text is the engine's), which replaces the rejection.
\<close>

definition fetchWithTimeout :: "'d Net \<Rightarrow> FetchRequest \<Rightarrow> thrown + 'd Response" where
  "fetchWithTimeout net req =
     (case fetch net req of
        Inr response \<Rightarrow> Inr response
      | Inl (Error n m) \<Rightarrow>
          if n = js ''AbortError'' then Inl (new_Error (js ''Request timeout''))
          else Inl (Error n (m @ js '' (URL: '' @ url_toString net (url req) @ js '')''))
      | Inl (DOMException n m) \<Rightarrow>
          if n = js ''AbortError'' then Inl (new_Error (js ''Request timeout''))
          else Inl (Error (js ''TypeError'')
                 (js ''Cannot set property message of [object DOMException] which has only a getter''))
      | Inl NonError \<Rightarrow> Inl NonError
      | Inl Nullish \<Rightarrow> Inl Nullish)"

text \<open>
  \<open>handleErrorResponse\<close> always throws. The local \<open>message\<close> starts as the generic text,
  is replaced by the joined messages of the body when the body parses and has
  \<open>errors\<close>, and is then overridden for the statuses 401, 404 and 429.
\<close>

definition handleErrorResponse :: "'d Response \<Rightarrow> thrown + unit" where
  "handleErrorResponse response =
     (let st = status response;
          message0 = js ''Backlog API error'';
          message1 = (case json response of
                        Inl e \<Rightarrow> message0
                      | Inr errorData \<Rightarrow>
                          (case errors errorData of
                             Some es \<Rightarrow> join (js '', '') es
                           | None \<Rightarrow> message0));
          message2 = (if st = 401 then js ''Invalid API key or unauthorized access''
                      else if st = 404 then js ''Resource not found''
                      else if st = 429 then js ''Rate limit exceeded. Please try again later''
                      else message1)
      in Inl (new_Error (message2 @ js '' (Status: '' @ String_nat st @ js '')'')))"

text \<open>\<open>params.apiKey = ...\<close>: an existing property keeps its place, a new one goes last.\<close>

fun set_property :: "js_string \<Rightarrow> 'v \<Rightarrow> (js_string \<times> 'v) list \<Rightarrow> (js_string \<times> 'v) list" where
  "set_property k v [] = [(k, v)]"
| "set_property k v ((k', v') # ps) =
     (if k' = k then (k, v) # ps else (k', v') # set_property k v ps)"

text \<open>The \<open>forEach\<close> over \<open>Object.entries(params)\<close>: defined values are appended.\<close>

fun append_params :: "(js_string \<times> js_string option) list \<Rightarrow> URL \<Rightarrow> URL" where
  "append_params [] u = u"
| "append_params ((k, v) # ps) u =
     append_params ps (case v of None \<Rightarrow> u | Some s \<Rightarrow> searchParams_append u k s)"

text \<open>The \<open>catch\<close> block of \<open>request\<close>.\<close>

definition request_catch :: "BacklogAPIClient \<Rightarrow> thrown \<Rightarrow> thrown" where
  "request_catch client error =
     (if instanceof_Error error
      then (if str_includes (message error) (js ''fetch failed'')
               \<or> str_includes (message error) (js ''Failed to fetch'')
            then new_Error (js ''Failed to connect to '' @ baseURL client
                   @ js ''. Please check:'' @ [0x0A] @ js ''- Your internet connection'' @ [0x0A]
                   @ js ''- The Backlog space URL is correct (e.g., yourspace.backlog.com)''
                   @ [0x0A, 0x0A] @ js ''Original error: '' @ message error)
            else error)
      else new_Error
             (js ''No response from Backlog server. Please check your internet connection.''))"

text \<open>
  \<open>request\<close> returns its result together with the requests it handed to \<open>fetch\<close>.
  \<open>new URL\<close> is outside the \<open>try\<close>: when it throws, nothing is fetched.
\<close>

definition request ::
  "'d Net \<Rightarrow> BacklogAPIClient \<Rightarrow> js_string \<Rightarrow> FetchOptions \<Rightarrow> (thrown + 'd) \<times> FetchRequest list" where
  "request net client endpoint options =
     (let ps = set_property (js ''apiKey'') (Some (apiKey client)) (params options)
      in case new_URL net (baseURL client @ endpoint) of
           Inl e \<Rightarrow> (Inl e, [])
         | Inr url0 \<Rightarrow>
             let req = \<lparr>url = append_params ps url0,
                        req_method = opt_method options,
                        req_headers = opt_headers options,
                        req_body = opt_body options,
                        req_timeout = (case timeout options of
                                         None \<Rightarrow> defaultTimeout client | Some t \<Rightarrow> t)\<rparr>;
                 attempt = (case fetchWithTimeout net req of
                              Inl e \<Rightarrow> Inl e
                            | Inr response \<Rightarrow>
                                (case (if \<not> ok response then handleErrorResponse response
                                       else Inr ()) of
                                   Inl e \<Rightarrow> Inl e
                                 | Inr _ \<Rightarrow>
                                     (case json response of
                                        Inl e \<Rightarrow> Inl e
                                      | Inr v \<Rightarrow> Inr (data v))))
             in (case attempt of
                   Inl error \<Rightarrow> Inl (request_catch client error)
                 | Inr d \<Rightarrow> Inr d,
                 [req]))"

subsection \<open>The endpoints\<close>

definition getProjects :: "'d Net \<Rightarrow> BacklogAPIClient \<Rightarrow> (thrown + 'd) \<times> FetchRequest list" where
  "getProjects net client = request net client (js ''/projects'') no_options"

definition getProject :: "'d Net \<Rightarrow> BacklogAPIClient \<Rightarrow> js_string \<Rightarrow> (thrown + 'd) \<times> FetchRequest list" where
  "getProject net client projectIdOrKey =
     request net client (js ''/projects/'' @ projectIdOrKey) no_options"

definition getIssueTypes :: "'d Net \<Rightarrow> BacklogAPIClient \<Rightarrow> js_string \<Rightarrow> (thrown + 'd) \<times> FetchRequest list" where
  "getIssueTypes net client projectIdOrKey =
     request net client (js ''/projects/'' @ projectIdOrKey @ js ''/issueTypes'') no_options"

definition getPriorities :: "'d Net \<Rightarrow> BacklogAPIClient \<Rightarrow> (thrown + 'd) \<times> FetchRequest list" where
  "getPriorities net client = request net client (js ''/priorities'') no_options"

definition getUsers :: "'d Net \<Rightarrow> BacklogAPIClient \<Rightarrow> js_string \<Rightarrow> (thrown + 'd) \<times> FetchRequest list" where
  "getUsers net client projectIdOrKey =
     request net client (js ''/projects/'' @ projectIdOrKey @ js ''/users'') no_options"

definition getCategories :: "'d Net \<Rightarrow> BacklogAPIClient \<Rightarrow> js_string \<Rightarrow> (thrown + 'd) \<times> FetchRequest list" where
  "getCategories net client projectIdOrKey =
     request net client (js ''/projects/'' @ projectIdOrKey @ js ''/categories'') no_options"

text \<open>
  \<open>CreateIssueParams\<close> as the entries of the object, each value undefined, a scalar
  (by its string conversion) or an array of strings.
\<close>

datatype issue_value = Undefined | Scalar js_string | Array "js_string list"

fun form_entries :: "(js_string \<times> issue_value) list \<Rightarrow> (js_string \<times> js_string) list" where
  "form_entries [] = []"
| "form_entries ((k, Undefined) # ps) = form_entries ps"
| "form_entries ((k, Scalar s) # ps) = (k, s) # form_entries ps"
| "form_entries ((k, Array vs) # ps) = map (\<lambda>v. (k @ js ''[]'', v)) vs @ form_entries ps"

definition createIssue ::
  "'d Net \<Rightarrow> BacklogAPIClient \<Rightarrow> (js_string \<times> issue_value) list \<Rightarrow> (thrown + 'd) \<times> FetchRequest list" where
  "createIssue net client ps =
     request net client (js ''/issues'')
       \<lparr>params = [], timeout = None, opt_method = Some (js ''POST''),
        opt_headers = [(js ''Content-Type'', js ''application/x-www-form-urlencoded'')],
        opt_body = Some (UrlEncoded (form_entries ps))\<rparr>"

definition uploadAttachmentFromBlob ::
  "'d Net \<Rightarrow> BacklogAPIClient \<Rightarrow> Blob \<Rightarrow> js_string \<Rightarrow> (thrown + 'd) \<times> FetchRequest list" where
  "uploadAttachmentFromBlob net client blob filename =
     (let file = new_File blob filename
                   (if truthy (blob_type blob) then blob_type blob else js ''image/png'')
      in case new_URL net (baseURL client @ js ''/space/attachment'') of
           Inl e \<Rightarrow> (Inl e, [])
         | Inr url0 \<Rightarrow>
             let req = \<lparr>url = searchParams_append url0 (js ''apiKey'') (apiKey client),
                        req_method = Some (js ''POST''),
                        req_headers = [],
                        req_body = Some (Multipart [(js ''file'', file)]),
                        req_timeout = defaultTimeout client\<rparr>;
                 attempt = (case fetchWithTimeout net req of
                              Inl e \<Rightarrow> Inl e
                            | Inr response \<Rightarrow>
                                (case (if \<not> ok response then handleErrorResponse response
                                       else Inr ()) of
                                   Inl e \<Rightarrow> Inl e
                                 | Inr _ \<Rightarrow>
                                     (case json response of
                                        Inl e \<Rightarrow> Inl e
                                      | Inr v \<Rightarrow> Inr (data v))))
             in (case attempt of
                   Inl error \<Rightarrow>
                     Inl (if instanceof_Error error then error
                          else new_Error (js ''Failed to upload attachment''))
                 | Inr d \<Rightarrow> Inr d,
                 [req]))"

definition getMyself :: "'d Net \<Rightarrow> BacklogAPIClient \<Rightarrow> (thrown + 'd) \<times> FetchRequest list" where
  "getMyself net client = request net client (js ''/users/myself'') no_options"

definition testConnection :: "'d Net \<Rightarrow> BacklogAPIClient \<Rightarrow> (thrown + bool) \<times> FetchRequest list" where
  "testConnection net client =
     (case getMyself net client of
        (Inr d, reqs) \<Rightarrow> (Inr True, reqs)
      | (Inl error, reqs) \<Rightarrow>
          (Inl (if instanceof_Error error then error
                else new_Error (js ''Connection test failed'')), reqs))"

text \<open>Every operation of the client, and the requests it hands to \<open>fetch\<close>.\<close>

datatype api_operation =
    GetProjects
  | GetProject js_string
  | GetIssueTypes js_string
  | GetPriorities
  | GetUsers js_string
  | GetCategories js_string
  | CreateIssue "(js_string \<times> issue_value) list"
  | UploadAttachmentFromBlob Blob js_string
  | GetMyself
  | TestConnection

fun fetched :: "'d Net \<Rightarrow> BacklogAPIClient \<Rightarrow> api_operation \<Rightarrow> FetchRequest list" where
  "fetched net client GetProjects = snd (getProjects net client)"
| "fetched net client (GetProject p) = snd (getProject net client p)"
| "fetched net client (GetIssueTypes p) = snd (getIssueTypes net client p)"
| "fetched net client GetPriorities = snd (getPriorities net client)"
| "fetched net client (GetUsers p) = snd (getUsers net client p)"
| "fetched net client (GetCategories p) = snd (getCategories net client p)"
| "fetched net client (CreateIssue ps) = snd (createIssue net client ps)"
| "fetched net client (UploadAttachmentFromBlob blob filename) =
     snd (uploadAttachmentFromBlob net client blob filename)"
| "fetched net client GetMyself = snd (getMyself net client)"
| "fetched net client TestConnection = snd (testConnection net client)"

text \<open>The path each operation asks for, as the list of the external interface has it.\<close>

fun endpoint_of :: "api_operation \<Rightarrow> js_string" where
  "endpoint_of GetProjects = js ''/projects''"
| "endpoint_of (GetProject p) = js ''/projects/'' @ p"
| "endpoint_of (GetIssueTypes p) = js ''/projects/'' @ p @ js ''/issueTypes''"
| "endpoint_of GetPriorities = js ''/priorities''"
| "endpoint_of (GetUsers p) = js ''/projects/'' @ p @ js ''/users''"
| "endpoint_of (GetCategories p) = js ''/projects/'' @ p @ js ''/categories''"
| "endpoint_of (CreateIssue ps) = js ''/issues''"
| "endpoint_of (UploadAttachmentFromBlob blob filename) = js ''/space/attachment''"
| "endpoint_of GetMyself = js ''/users/myself''"
| "endpoint_of TestConnection = js ''/users/myself''"

section \<open>Data URLs: \<open>dataURLtoBlob\<close>\<close>

text \<open>\<open>String.prototype.split\<close> with a separator of one code unit.\<close>

fun split_on :: "code_unit \<Rightarrow> js_string \<Rightarrow> js_string list" where
  "split_on sep [] = [[]]"
| "split_on sep (c # cs) =
     (if c = sep then [] # split_on sep cs
      else (case split_on sep cs of x # xs \<Rightarrow> (c # x) # xs | [] \<Rightarrow> [[c]]))"

text \<open>
  The match of \<open>/:(.*?);/\<close>. \<open>lazy_until_semicolon\<close> is the lazy group followed by
  \<open>;\<close>: the code units up to the first \<open>;\<close>, unless a line terminator comes first.
  \<open>match_mime\<close> tries every \<open>:\<close> from the left and returns capture group 1.
\<close>

fun lazy_until_semicolon :: "js_string \<Rightarrow> js_string option" where
  "lazy_until_semicolon [] = None"
| "lazy_until_semicolon (c # cs) =
     (if c = 0x3B then Some []
      else if is_line_terminator c then None
      else map_option ((#) c) (lazy_until_semicolon cs))"

fun match_mime :: "js_string \<Rightarrow> js_string option" where
  "match_mime [] = None"
| "match_mime (c # cs) =
     (if c = 0x3A
      then (case lazy_until_semicolon cs of Some g \<Rightarrow> Some g | None \<Rightarrow> match_mime cs)
      else match_mime cs)"

text \<open>
  \<open>atob\<close> is the platform's forgiving base64 decoder: ASCII whitespace is removed; when
  the length is a multiple of 4, one or two trailing \<open>=\<close> are removed; a length of
  1 modulo 4 or a code unit outside the base64 alphabet is an
  \<open>InvalidCharacterError\<close>; otherwise every 4 code units give 3 bytes, and 2 or 3
  left-over code units give 1 or 2 bytes. The result is the string of these bytes.
\<close>

definition is_ascii_whitespace :: "code_unit \<Rightarrow> bool" where
  "is_ascii_whitespace c \<longleftrightarrow> c = 0x09 \<or> c = 0x0A \<or> c = 0x0C \<or> c = 0x0D \<or> c = 0x20"

definition b64_value :: "code_unit \<Rightarrow> nat option" where
  "b64_value c =
     (if 0x41 \<le> c \<and> c \<le> 0x5A then Some (unat c - 0x41)
      else if 0x61 \<le> c \<and> c \<le> 0x7A then Some (unat c - 0x61 + 26)
      else if 0x30 \<le> c \<and> c \<le> 0x39 then Some (unat c - 0x30 + 52)
      else if c = 0x2B then Some 62
      else if c = 0x2F then Some 63
      else None)"

definition strip_padding :: "js_string \<Rightarrow> js_string" where
  "strip_padding d =
     (if length d mod 4 = 0
      then (if 2 \<le> length d \<and> last d = 0x3D \<and> last (butlast d) = 0x3D
            then butlast (butlast d)
            else if d \<noteq> [] \<and> last d = 0x3D then butlast d
            else d)
      else d)"

fun b64_bytes :: "nat list \<Rightarrow> nat list" where
  "b64_bytes (a # b # c # d # rest) =
     [a * 4 + b div 16, (b mod 16) * 16 + c div 4, (c mod 4) * 64 + d] @ b64_bytes rest"
| "b64_bytes [a, b, c] = [a * 4 + b div 16, (b mod 16) * 16 + c div 4]"
| "b64_bytes [a, b] = [a * 4 + b div 16]"
| "b64_bytes _ = []"

definition atob :: "js_string \<Rightarrow> thrown + js_string" where
  "atob input =
     (let d = strip_padding (filter (\<lambda>c. \<not> is_ascii_whitespace c) input)
      in if length d mod 4 = 1 \<or> (\<exists>c \<in> set d. b64_value c = None)
         then Inl (DOMException (js ''InvalidCharacterError'')
                     (js ''The string to be decoded is not correctly encoded.''))
         else Inr (map of_nat
                (b64_bytes (map (\<lambda>c. case b64_value c of Some v \<Rightarrow> v | None \<Rightarrow> 0) d))))"

text \<open>
  The loop \<open>while (n--) { u8arr[n] = bstr.charCodeAt(n) }\<close>: the test reads \<open>n\<close> and
  decrements it, the body writes at the decremented index; a \<open>Uint8Array\<close> element keeps
  the low 8 bits.
\<close>

fun fill_u8arr :: "nat \<Rightarrow> js_string \<Rightarrow> 8 word list \<Rightarrow> 8 word list" where
  "fill_u8arr 0 bstr u8arr = u8arr"
| "fill_u8arr (Suc n) bstr u8arr = fill_u8arr n bstr (u8arr[n := ucast (bstr ! n)])"

text \<open>
  The copy in \<open>popup.tsx\<close>. \<open>arr[1]\<close> is \<open>undefined\<close> when the data URL has no comma, and
  \<open>atob\<close> then decodes the string \<open>"undefined"\<close>. \<open>split\<close> never returns an empty array.
\<close>

definition dataURLtoBlob :: "js_string \<Rightarrow> thrown + Blob" where
  "dataURLtoBlob dataUrl =
     (let arr = split_on 0x2C dataUrl;
          mime = (case match_mime (case arr of x # _ \<Rightarrow> x | [] \<Rightarrow> []) of
                    Some g \<Rightarrow> if truthy g then g else js ''image/png''
                  | None \<Rightarrow> js ''image/png'')
      in case atob (case arr of _ # x # _ \<Rightarrow> x | _ \<Rightarrow> js ''undefined'') of
           Inl e \<Rightarrow> Inl e
         | Inr bstr \<Rightarrow>
             let n = length bstr;
                 u8arr = fill_u8arr n bstr (replicate n 0)
             in Inr (new_Blob u8arr mime))"

text \<open>The copy in \<open>contents/backlog-form-filler.ts\<close>.\<close>

definition dataURLtoBlob_content :: "js_string \<Rightarrow> thrown + Blob" where
  "dataURLtoBlob_content dataUrl =
     (let arr = split_on 0x2C dataUrl;
          mime = (case match_mime (case arr of x # _ \<Rightarrow> x | [] \<Rightarrow> []) of
                    Some g \<Rightarrow> if truthy g then g else js ''image/png''
                  | None \<Rightarrow> js ''image/png'')
      in case atob (case arr of _ # x # _ \<Rightarrow> x | _ \<Rightarrow> js ''undefined'') of
           Inl e \<Rightarrow> Inl e
         | Inr bstr \<Rightarrow>
             let n = length bstr;
                 u8arr = fill_u8arr n bstr (replicate n 0)
             in Inr (new_Blob u8arr mime))"

section \<open>Screenshot service (background) and the popup's capture handler\<close>

text \<open>
  The browser as the background script sees it: the outcome of \<open>chrome.tabs.query\<close>
  and of \<open>chrome.tabs.captureVisibleTab\<close> for a window. \<open>tab.id\<close> may be undefined.
\<close>

record Tab =
  tab_id :: "int option"
  windowId :: int

record Browser =
  tabs_query :: "thrown + Tab list"
  captureVisibleTab :: "int \<Rightarrow> thrown + js_string"

definition captureScreenshot :: "Browser \<Rightarrow> thrown + js_string" where
  "captureScreenshot browser =
     (case tabs_query browser of
        Inl e \<Rightarrow> Inl e
      | Inr tabs \<Rightarrow>
          (case tabs of
             [] \<Rightarrow> Inl (new_Error (js ''No active tab found''))
           | tab # _ \<Rightarrow>
               (case tab_id tab of
                  None \<Rightarrow> Inl (new_Error (js ''No active tab found''))
                | Some i \<Rightarrow>
                    if i = 0 then Inl (new_Error (js ''No active tab found''))
                    else captureVisibleTab browser (windowId tab))))"

text \<open>
  The listener answers a message of type \<open>CAPTURE_SCREENSHOT\<close> and no other
  (\<open>None\<close>: no response is sent). \<open>error.message\<close> of a thrown primitive is
  undefined; of \<open>null\<close> or \<open>undefined\<close> it throws inside the \<open>catch\<close> callback, and
  \<open>sendResponse\<close> is never called.
\<close>

record capture_response =
  success :: bool
  dataUrl :: "js_string option"
  error :: "js_string option"

definition onMessage :: "Browser \<Rightarrow> js_string \<Rightarrow> capture_response option" where
  "onMessage browser message_type =
     (if message_type = js ''CAPTURE_SCREENSHOT''
      then (case captureScreenshot browser of
              Inr d \<Rightarrow> Some \<lparr>success = True, dataUrl = Some d, error = None\<rparr>
            | Inl (Error n m) \<Rightarrow> Some \<lparr>success = False, dataUrl = None, error = Some m\<rparr>
            | Inl (DOMException n m) \<Rightarrow>
                Some \<lparr>success = False, dataUrl = None, error = Some m\<rparr>
            | Inl NonError \<Rightarrow> Some \<lparr>success = False, dataUrl = None, error = None\<rparr>
            | Inl Nullish \<Rightarrow> None)
      else None)"

text \<open>The state of the popup component (its \<open>useState\<close> and \<open>useStorage\<close> values).\<close>

record BacklogProject =
  project_id :: nat
  projectKey :: js_string

record Popup =
  st_space :: "js_string option"
  st_title :: js_string
  st_description :: js_string
  st_selectedProjectId :: js_string
  st_selectedIssueTypeId :: js_string
  st_selectedPriorityId :: js_string
  st_selectedAssigneeId :: js_string
  st_projects :: "BacklogProject list"
  st_errorMessage :: js_string
  st_screenshotDataUrl :: "js_string option"
  st_capturingScreenshot :: bool

text \<open>The fallback text of the capture handler (a Japanese sentence), as code units.\<close>

definition MSG_CAPTURE_FAILED :: js_string where
  "MSG_CAPTURE_FAILED =
     [0x30B9, 0x30AF, 0x30EA, 0x30FC, 0x30F3, 0x30B7, 0x30E7, 0x30C3, 0x30C8, 0x306E,
      0x64AE, 0x5F71, 0x306B, 0x5931, 0x6557, 0x3057, 0x307E, 0x3057, 0x305F]"

text \<open>
  \<open>handleCaptureScreenshot\<close>, given what \<open>chrome.runtime.sendMessage\<close> settles to: a
  rejection, or the response (undefined when no listener answered; reading
  \<open>response.success\<close> is then a \<open>TypeError\<close>, caught like every other error).
\<close>

definition handleCaptureScreenshot ::
  "thrown + capture_response option \<Rightarrow> Popup \<Rightarrow> (thrown + unit) \<times> Popup" where
  "handleCaptureScreenshot sent st =
     (let st1 = st\<lparr>st_capturingScreenshot := True\<rparr>;
          attempt =
            (case sent of
               Inl e \<Rightarrow> Inl e
             | Inr None \<Rightarrow>
                 Inl (Error (js ''TypeError'')
                        (js ''Cannot read properties of undefined (reading 'success')''))
             | Inr (Some response) \<Rightarrow>
                 if success response
                 then Inr (st1\<lparr>st_screenshotDataUrl := dataUrl response\<rparr>)
                 else Inr (st1\<lparr>st_errorMessage :=
                        (case error response of
                           Some m \<Rightarrow> if truthy m then m else MSG_CAPTURE_FAILED
                         | None \<Rightarrow> MSG_CAPTURE_FAILED)\<rparr>));
          st2 = (case attempt of
                   Inr st' \<Rightarrow> st'
                 | Inl e \<Rightarrow>
                     st1\<lparr>st_errorMessage :=
                           (if instanceof_Error e then message e else MSG_CAPTURE_FAILED)\<rparr>)
      in (Inr (), st2\<lparr>st_capturingScreenshot := False\<rparr>))"

text \<open>
  The popup's click on the capture button, with the background listener on the other
  end. The listener keeps the channel open for its answer; when it never answers, the
  channel closes and \<open>sendMessage\<close> rejects (the text is the browser's).
\<close>

definition capture_flow :: "Browser \<Rightarrow> Popup \<Rightarrow> (thrown + unit) \<times> Popup" where
  "capture_flow browser st =
     handleCaptureScreenshot
       (case onMessage browser (js ''CAPTURE_SCREENSHOT'') of
          Some response \<Rightarrow> Inr (Some response)
        | None \<Rightarrow>
            Inl (new_Error (js ''The message port closed before a response was received.'')))
       st"

section \<open>The staged handoff record and the extension's world\<close>

text \<open>
  The record under the key \<open>backlogQuickFormData\<close> (interface \<open>FormData\<close> of the
  content script). \<open>None\<close> in a string field is \<open>null\<close>; \<open>timestamp = None\<close> is a
  record written without the property, for which \<open>formData.timestamp\<close> is undefined.
  Times are integers, the milliseconds of \<open>Date.now()\<close>.
\<close>

record FormData =
  summary :: "js_string option"
  description :: "js_string option"
  issueTypeId :: "js_string option"
  priorityId :: "js_string option"
  assigneeId :: "js_string option"
  screenshotDataUrl :: "js_string option"
  timestamp :: "int option"

definition STORAGE_KEY :: js_string where
  "STORAGE_KEY = js ''backlogQuickFormData''"

text \<open>
  The page is a third party: the model reads it only through the answers of its query
  functions, which may depend on everything done to the page so far, and records what
  the script does to it. A query may throw (a selector built from page data can be
  invalid). Dispatching an event, clicking and assigning \<open>innerHTML\<close> do not throw.
\<close>

type_synonym node = nat

datatype dom_effect =
    NativeSetValue node bool js_string
  | DispatchEvent node js_string
  | SetInnerHTML node js_string
  | Focus node
  | CollapseSelectionToEnd node
  | DispatchPaste node File
  | Click node

record Page =
  querySelector :: "dom_effect list \<Rightarrow> js_string \<Rightarrow> thrown + node option"
  elementQuerySelector :: "dom_effect list \<Rightarrow> node \<Rightarrow> js_string \<Rightarrow> thrown + node option"
  getAttribute :: "dom_effect list \<Rightarrow> node \<Rightarrow> js_string \<Rightarrow> js_string option"
  isTextArea :: "node \<Rightarrow> bool"
  hasSelection :: bool

text \<open>
  Elements the script creates (their styling is not modelled) and its timers. The one
  timer callback of the script reverses the animation of the notification and, 300 ms
  later, removes the notification and the style element; it runs after \<open>fillForm\<close>
  has returned and throws nothing.
\<close>

datatype element = Div js_string | Style

datatype timer_callback = FadeOutAndRemoveNotification

datatype storage_call = Get js_string | Set js_string | Remove js_string

text \<open>
  \<open>chrome.storage.local\<close> is a reliable key-value store whose calls are logged;
  \<open>runtime_id\<close> is what reading \<open>chrome.runtime?.id\<close> gives (it may throw);
  \<open>clock\<close> is what \<open>Date.now()\<close> returns. A storage call takes no time and a
  sleep takes its delay, so the clock at the start of \<open>fillForm\<close> is the time of its
  age check.
\<close>

record World =
  local_storage :: "js_string \<Rightarrow> FormData option"
  storage_calls :: "storage_call list"
  clock :: int
  opened_tabs :: "js_string list"
  runtime_id :: "thrown + js_string option"
  console :: "js_string list"
  page :: Page
  effects :: "dom_effect list"
  head_children :: "element list"
  body_children :: "element list"
  timers :: "(nat \<times> timer_callback) list"

subsection \<open>The popup's \<open>openBacklogIssuePage\<close>\<close>

text \<open>\<open>String.prototype.trim\<close>: white space and line terminators of ECMAScript.\<close>

definition is_js_whitespace :: "code_unit \<Rightarrow> bool" where
  "is_js_whitespace c \<longleftrightarrow>
     c = 0x09 \<or> c = 0x0B \<or> c = 0x0C \<or> c = 0x20 \<or> c = 0xA0 \<or> c = 0x1680
     \<or> (0x2000 \<le> c \<and> c \<le> 0x200A) \<or> c = 0x202F \<or> c = 0x205F \<or> c = 0x3000
     \<or> c = 0xFEFF \<or> is_line_terminator c"

definition trim :: "js_string \<Rightarrow> js_string" where
  "trim s = rev (dropWhile is_js_whitespace (rev (dropWhile is_js_whitespace s)))"

text \<open>\<open>x || null\<close> for a string \<open>x\<close>.\<close>

definition or_null :: "js_string \<Rightarrow> js_string option" where
  "or_null s = (if truthy s then Some s else None)"

definition storage_local_set :: "js_string \<Rightarrow> FormData \<Rightarrow> World \<Rightarrow> World" where
  "storage_local_set k v w =
     w\<lparr>local_storage := (local_storage w)(k \<mapsto> v), storage_calls := storage_calls w @ [Set k]\<rparr>"

text \<open>The copy in \<open>src/popup.tsx\<close>.\<close>

definition openBacklogIssuePage :: "Popup \<Rightarrow> World \<Rightarrow> World" where
  "openBacklogIssuePage st w =
     (case find (\<lambda>p. String_nat (project_id p) = st_selectedProjectId st) (st_projects st) of
        None \<Rightarrow> w
      | Some selectedProject \<Rightarrow>
          (case st_space st of
             None \<Rightarrow> w
           | Some space \<Rightarrow>
               if \<not> truthy space then w
               else
                 let w1 = storage_local_set STORAGE_KEY
                            \<lparr>summary = or_null (trim (st_title st)),
                             description = or_null (trim (st_description st)),
                             issueTypeId = or_null (st_selectedIssueTypeId st),
                             priorityId = or_null (st_selectedPriorityId st),
                             assigneeId = or_null (st_selectedAssigneeId st),
                             screenshotDataUrl =
                               (case st_screenshotDataUrl st of
                                  None \<Rightarrow> None | Some s \<Rightarrow> or_null s),
                             timestamp = Some (clock w)\<rparr> w
                 in w1\<lparr>opened_tabs := opened_tabs w1
                          @ [js ''https://'' @ space @ js ''/add/'' @ projectKey selectedProject]\<rparr>))"

text \<open>
  The second copy of the popup component (source file \<open>part_001\<close>): the same
  function, but the object it stores has no \<open>timestamp\<close> property.
\<close>

definition openBacklogIssuePage_part_001 :: "Popup \<Rightarrow> World \<Rightarrow> World" where
  "openBacklogIssuePage_part_001 st w =
     (case find (\<lambda>p. String_nat (project_id p) = st_selectedProjectId st) (st_projects st) of
        None \<Rightarrow> w
      | Some selectedProject \<Rightarrow>
          (case st_space st of
             None \<Rightarrow> w
           | Some space \<Rightarrow>
               if \<not> truthy space then w
               else
                 let w1 = storage_local_set STORAGE_KEY
                            \<lparr>summary = or_null (trim (st_title st)),
                             description = or_null (trim (st_description st)),
                             issueTypeId = or_null (st_selectedIssueTypeId st),
                             priorityId = or_null (st_selectedPriorityId st),
                             assigneeId = or_null (st_selectedAssigneeId st),
                             screenshotDataUrl =
                               (case st_screenshotDataUrl st of
                                  None \<Rightarrow> None | Some s \<Rightarrow> or_null s),
                             timestamp = None\<rparr> w
                 in w1\<lparr>opened_tabs := opened_tabs w1
                          @ [js ''https://'' @ space @ js ''/add/'' @ projectKey selectedProject]\<rparr>))"

section \<open>The content script (contents/backlog-form-filler)\<close>

text \<open>
  An asynchronous function is a function of the world that returns its outcome (a
  rejection is \<open>Inl\<close>) and the world it leaves; \<open>io_bind\<close> is sequencing with
  \<open>await\<close>, which stops at the first rejection.
\<close>

type_synonym 'a io = "World \<Rightarrow> (thrown + 'a) \<times> World"

definition io_return :: "'a \<Rightarrow> 'a io" where
  "io_return x = (\<lambda>w. (Inr x, w))"

definition io_bind :: "'a io \<Rightarrow> ('a \<Rightarrow> 'b io) \<Rightarrow> 'b io" where
  "io_bind m f = (\<lambda>w. case m w of (Inl e, w') \<Rightarrow> (Inl e, w') | (Inr x, w') \<Rightarrow> f x w')"

definition io_result :: "thrown + 'a \<Rightarrow> 'a io" where
  "io_result r = (\<lambda>w. (r, w))"

definition storage_local_get :: "js_string \<Rightarrow> FormData option io" where
  "storage_local_get k = (\<lambda>w. (Inr (local_storage w k), w\<lparr>storage_calls := storage_calls w @ [Get k]\<rparr>))"

definition storage_local_remove :: "js_string \<Rightarrow> unit io" where
  "storage_local_remove k =
     (\<lambda>w. (Inr (), w\<lparr>local_storage := (local_storage w)(k := None),
                      storage_calls := storage_calls w @ [Remove k]\<rparr>))"

definition Date_now :: "int io" where
  "Date_now = (\<lambda>w. (Inr (clock w), w))"

text \<open>\<open>await new Promise((resolve) => setTimeout(resolve, ms))\<close>.\<close>

definition sleep :: "nat \<Rightarrow> unit io" where
  "sleep ms = (\<lambda>w. (Inr (), w\<lparr>clock := clock w + int ms\<rparr>))"

definition document_querySelector :: "js_string \<Rightarrow> node option io" where
  "document_querySelector selector = (\<lambda>w. (querySelector (page w) (effects w) selector, w))"

definition element_querySelector :: "node \<Rightarrow> js_string \<Rightarrow> node option io" where
  "element_querySelector el selector =
     (\<lambda>w. (elementQuerySelector (page w) (effects w) el selector, w))"

definition element_getAttribute :: "node \<Rightarrow> js_string \<Rightarrow> js_string option io" where
  "element_getAttribute el attr = (\<lambda>w. (Inr (getAttribute (page w) (effects w) el attr), w))"

definition effect :: "dom_effect \<Rightarrow> unit io" where
  "effect e = (\<lambda>w. (Inr (), w\<lparr>effects := effects w @ [e]\<rparr>))"

definition dq :: js_string where
  "dq = [0x22]"

definition setReactInputValue :: "node \<Rightarrow> js_string \<Rightarrow> unit io" where
  "setReactInputValue el v =
     (\<lambda>w. io_bind (effect (NativeSetValue el (isTextArea (page w) el) v)) (\<lambda>_.
          io_bind (effect (DispatchEvent el (js ''input''))) (\<lambda>_.
          effect (DispatchEvent el (js ''change'')))) w)"

definition pasteImageToEditor :: "node \<Rightarrow> js_string \<Rightarrow> unit io" where
  "pasteImageToEditor editor dataUrl' =
     io_bind (io_result (dataURLtoBlob_content dataUrl')) (\<lambda>blob.
     io_bind (effect (Focus editor)) (\<lambda>_.
     io_bind (\<lambda>w. if hasSelection (page w) then effect (CollapseSelectionToEnd editor) w
                   else io_return () w) (\<lambda>_.
     effect (DispatchPaste editor (new_File blob (js ''screenshot.png'') (blob_type blob))))))"

definition selectComboboxOption :: "js_string \<Rightarrow> js_string \<Rightarrow> bool io" where
  "selectComboboxOption labelId optionId =
     io_bind (document_querySelector
                (js ''button[role='' @ dq @ js ''combobox'' @ dq @ js ''][aria-labelledby=''
                 @ dq @ labelId @ dq @ js '']'')) (\<lambda>found.
     case found of
       None \<Rightarrow> io_return False
     | Some combobox \<Rightarrow>
         io_bind (effect (Click combobox)) (\<lambda>_.
         io_bind (sleep 300) (\<lambda>_.
         io_bind (element_getAttribute combobox (js ''aria-controls'')) (\<lambda>controls.
         case controls of
           None \<Rightarrow> io_return False
         | Some listboxId \<Rightarrow>
             if \<not> truthy listboxId then io_return False
             else
               io_bind (document_querySelector
                          (js ''#'' @ listboxId @ js '', [id='' @ dq @ listboxId @ dq @ js '']''))
                 (\<lambda>found_listbox.
               case found_listbox of
                 None \<Rightarrow> io_bind (effect (Click combobox)) (\<lambda>_. io_return False)
               | Some listbox \<Rightarrow>
                   io_bind (element_querySelector listbox
                              (js ''#'' @ listboxId @ js ''-'' @ optionId)) (\<lambda>found_option.
                   case found_option of
                     Some targetOption \<Rightarrow>
                       io_bind (effect (Click targetOption)) (\<lambda>_.
                       io_bind (sleep 200) (\<lambda>_. io_return True))
                   | None \<Rightarrow>
                       io_bind (effect (Click combobox)) (\<lambda>_. io_return False)))))))"

subsection \<open>\<open>fillForm\<close>\<close>

definition MAX_AGE_MS :: int where
  "MAX_AGE_MS = 5000"

text \<open>
  The age check \<open>Date.now() - formData.timestamp > MAX_AGE_MS\<close>. With an undefined
  timestamp the difference is \<open>NaN\<close> and the comparison is false.
\<close>

definition too_old :: "int \<Rightarrow> FormData \<Rightarrow> bool" where
  "too_old now formData =
     (case timestamp formData of Some t \<Rightarrow> now - t > MAX_AGE_MS | None \<Rightarrow> False)"

definition truthy_opt :: "js_string option \<Rightarrow> bool" where
  "truthy_opt v = (case v of None \<Rightarrow> False | Some s \<Rightarrow> truthy s)"

definition NOTIFICATION_TEXT :: js_string where
  "NOTIFICATION_TEXT =
     js ''Backlog Quick: '' @
     [0x30D5, 0x30A9, 0x30FC, 0x30E0, 0x306B, 0x5024, 0x3092, 0x81EA, 0x52D5, 0x5165,
      0x529B, 0x3057, 0x307E, 0x3057, 0x305F]"

definition fill_summary :: "FormData \<Rightarrow> unit io" where
  "fill_summary formData =
     (case summary formData of
        None \<Rightarrow> io_return ()
      | Some s \<Rightarrow>
          if \<not> truthy s then io_return ()
          else
            io_bind (document_querySelector
                       (js ''#summaryInput, input[name='' @ dq @ js ''issue.summary'' @ dq @ js '']''))
              (\<lambda>summaryInput.
            case summaryInput of
              None \<Rightarrow> io_return ()
            | Some el \<Rightarrow> setReactInputValue el s))"

definition description_html :: "js_string \<Rightarrow> js_string" where
  "description_html d =
     join [] (map (\<lambda>line. js ''<p>'' @ (if truthy line then line else js ''<br>'') @ js ''</p>'')
                (split_on 0x0A d))"

definition fill_description :: "FormData \<Rightarrow> node option \<Rightarrow> unit io" where
  "fill_description formData descEditor =
     (case (description formData, descEditor) of
        (Some d, Some editor) \<Rightarrow>
          if \<not> truthy d then io_return ()
          else
            io_bind (effect (SetInnerHTML editor (description_html d))) (\<lambda>_.
            effect (DispatchEvent editor (js ''input'')))
      | _ \<Rightarrow> io_return ())"

definition paste_screenshot :: "FormData \<Rightarrow> node option \<Rightarrow> unit io" where
  "paste_screenshot formData descEditor =
     (case (screenshotDataUrl formData, descEditor) of
        (Some s, Some editor) \<Rightarrow>
          if \<not> truthy s then io_return ()
          else io_bind (sleep 500) (\<lambda>_. pasteImageToEditor editor s)
      | _ \<Rightarrow> io_return ())"

definition select_field :: "js_string \<Rightarrow> js_string option \<Rightarrow> unit io" where
  "select_field labelId v =
     (case v of
        None \<Rightarrow> io_return ()
      | Some optionId \<Rightarrow>
          if \<not> truthy optionId then io_return ()
          else io_bind (selectComboboxOption labelId optionId) (\<lambda>_. io_return ()))"

definition show_notification :: "unit io" where
  "show_notification =
     (\<lambda>w. (Inr (), w\<lparr>head_children := head_children w @ [Style],
                      body_children := body_children w @ [Div NOTIFICATION_TEXT],
                      timers := timers w @ [(3000, FadeOutAndRemoveNotification)]\<rparr>))"

text \<open>The part of \<open>fillForm\<close> after its three early returns.\<close>

definition fill_fields :: "FormData \<Rightarrow> unit io" where
  "fill_fields formData =
     io_bind (sleep 2000) (\<lambda>_.
     io_bind (fill_summary formData) (\<lambda>_.
     io_bind (document_querySelector
                (js ''#descriptionTextArea, .comment-editor__textarea[contenteditable=''
                 @ dq @ js ''true'' @ dq @ js '']'')) (\<lambda>descEditor.
     io_bind (fill_description formData descEditor) (\<lambda>_.
     io_bind (paste_screenshot formData descEditor) (\<lambda>_.
     io_bind (select_field (js ''issueTypeLabel'') (issueTypeId formData)) (\<lambda>_.
     io_bind (select_field (js ''priorityLabel'') (priorityId formData)) (\<lambda>_.
     io_bind (select_field (js ''assignerLabel'') (assigneeId formData)) (\<lambda>_.
     show_notification))))))))"

definition fillForm :: "unit io" where
  "fillForm =
     io_bind (storage_local_get STORAGE_KEY) (\<lambda>stored.
     case stored of
       None \<Rightarrow> io_return ()
     | Some formData \<Rightarrow>
         io_bind (storage_local_remove STORAGE_KEY) (\<lambda>_.
         io_bind Date_now (\<lambda>now.
         if too_old now formData then io_return ()
         else if \<not> truthy_opt (summary formData) \<and> \<not> truthy_opt (description formData)
                 \<and> \<not> truthy_opt (issueTypeId formData) \<and> \<not> truthy_opt (priorityId formData)
                 \<and> \<not> truthy_opt (assigneeId formData)
                 \<and> \<not> truthy_opt (screenshotDataUrl formData)
         then io_return ()
         else fill_fields formData)))"

text \<open>
  The entry point: \<open>fillForm().catch(() => {})\<close>, run when the extension context is
  valid.
\<close>

definition isExtensionContextValid :: "World \<Rightarrow> bool" where
  "isExtensionContextValid w =
     (case runtime_id w of
        Inl e \<Rightarrow> False
      | Inr None \<Rightarrow> False
      | Inr (Some i) \<Rightarrow> truthy i)"

definition content_script :: "unit io" where
  "content_script =
     (\<lambda>w. if isExtensionContextValid w
           then (case fillForm w of (Inl e, w') \<Rightarrow> (Inr (), w') | (Inr u, w') \<Rightarrow> (Inr u, w'))
           else (Inr (), w))"

text \<open>A frame condition: the action leaves a component of the world as it was.\<close>

definition preserves :: "(World \<Rightarrow> 'p) \<Rightarrow> 'a io \<Rightarrow> bool" where
  "preserves proj m \<longleftrightarrow> (\<forall>w. proj (snd (m w)) = proj w)"

text \<open>
  Two notions for the proofs about the content script: a component of the world that
  does not depend on the DOM log or the clock, and an action that, when it rejects,
  has added nothing to the document's head and body.
\<close>

definition static_field :: "(World \<Rightarrow> 'p) \<Rightarrow> bool" where
  "static_field proj \<longleftrightarrow>
     (\<forall>w es c. proj (w\<lparr>effects := es\<rparr>) = proj w \<and> proj (w\<lparr>clock := c\<rparr>) = proj w)"

definition fails_quietly :: "'a io \<Rightarrow> bool" where
  "fails_quietly m \<longleftrightarrow>
     (\<forall>w e w'. m w = (Inl e, w') \<longrightarrow>
        body_children w' = body_children w \<and> head_children w' = head_children w)"

text \<open>The condition of the third early return of \<open>fillForm\<close>: no field is truthy.\<close>

definition all_falsy :: "FormData \<Rightarrow> bool" where
  "all_falsy formData \<longleftrightarrow>
     \<not> truthy_opt (summary formData) \<and> \<not> truthy_opt (description formData)
     \<and> \<not> truthy_opt (issueTypeId formData) \<and> \<not> truthy_opt (priorityId formData)
     \<and> \<not> truthy_opt (assigneeId formData) \<and> \<not> truthy_opt (screenshotDataUrl formData)"

section \<open>Example inputs\<close>

text \<open>Concrete inputs on which the theorems below are evaluated.\<close>

definition example_popup :: Popup where
  "example_popup =
     \<lparr>st_space = Some (js ''demo.backlog.com''),
      st_title = js '' Fix login '',
      st_description = js ''URL: https://example.com/'',
      st_selectedProjectId = js ''12'',
      st_selectedIssueTypeId = js ''3'',
      st_selectedPriorityId = js ''2'',
      st_selectedAssigneeId = js '''',
      st_projects = [\<lparr>project_id = 12, projectKey = js ''PRJ''\<rparr>],
      st_errorMessage = js '''',
      st_screenshotDataUrl = None,
      st_capturingScreenshot = False\<rparr>"

definition example_browser :: "thrown + js_string \<Rightarrow> Browser" where
  "example_browser outcome =
     \<lparr>tabs_query = Inr [\<lparr>tab_id = Some 7, windowId = 1\<rparr>],
      captureVisibleTab = (\<lambda>window. outcome)\<rparr>"

definition example_browser_no_tab :: Browser where
  "example_browser_no_tab =
     \<lparr>tabs_query = Inr [], captureVisibleTab = (\<lambda>window. Inr (js ''data:,''))\<rparr>"

text \<open>A page on which every document query finds node 1 and a listbox has no options.\<close>

definition example_page :: Page where
  "example_page =
     \<lparr>querySelector = (\<lambda>log selector. Inr (Some 1)),
      elementQuerySelector = (\<lambda>log el selector. Inr None),
      getAttribute = (\<lambda>log el attr. None),
      isTextArea = (\<lambda>el. False),
      hasSelection = True\<rparr>"

definition example_record :: "js_string option \<Rightarrow> js_string option \<Rightarrow> int option \<Rightarrow> FormData" where
  "example_record title shot written =
     \<lparr>summary = title, description = None, issueTypeId = None, priorityId = None,
      assigneeId = None, screenshotDataUrl = shot, timestamp = written\<rparr>"

definition example_world :: "FormData option \<Rightarrow> int \<Rightarrow> World" where
  "example_world stored now =
     \<lparr>local_storage = (\<lambda>k. if k = STORAGE_KEY then stored else None),
      storage_calls = [],
      clock = now,
      opened_tabs = [],
      runtime_id = Inr (Some (js ''extension-id'')),
      console = [],
      page = example_page,
      effects = [],
      head_children = [],
      body_children = [],
      timers = []\<rparr>"

text \<open>A network that accepts every URL and answers every request with status 200.\<close>

definition example_net :: "unit Net" where
  "example_net =
     \<lparr>valid_url = (\<lambda>s. True), url_toString = href,
      fetch = (\<lambda>req. Inr \<lparr>status = 200, json = Inr \<lparr>errors = None, data = ()\<rparr>\<rparr>)\<rparr>"

definition example_client :: BacklogAPIClient where
  "example_client =
     \<lparr>baseURL = js ''https://demo.backlog.com/api/v2'', apiKey = js ''secret'',
      defaultTimeout = 30000\<rparr>"

section \<open>Properties\<close>

lemma backtrack_api_suffix:
  assumes "s \<noteq> []"
  shows "backtrack_api (length s + 7) (s @ js ''/api/v2'') = Some s"
proof -
  let ?r = "s @ js ''/api/v2''"
  have b0: "backtrack_api (length s) ?r = Some s"
    using assms by (cases s) (simp_all add: js_def)
  have b1: "backtrack_api (Suc (length s)) ?r = Some s"
    using b0 by (simp add: js_def)
  have b2: "backtrack_api (Suc (Suc (length s))) ?r = Some s"
    using b1 by (simp add: js_def)
  have b3: "backtrack_api (Suc (Suc (Suc (length s)))) ?r = Some s"
    using b2 by (simp add: js_def)
  have b4: "backtrack_api (Suc (Suc (Suc (Suc (length s))))) ?r = Some s"
    using b3 by (simp add: js_def)
  have b5: "backtrack_api (Suc (Suc (Suc (Suc (Suc (length s)))))) ?r = Some s"
    using b4 by (simp add: js_def)
  have b6: "backtrack_api (Suc (Suc (Suc (Suc (Suc (Suc (length s))))))) ?r = Some s"
    using b5 by (simp add: js_def)
  have b7: "backtrack_api (Suc (Suc (Suc (Suc (Suc (Suc (Suc (length s)))))))) ?r = Some s"
    using b6 by (simp add: js_def)
  have "length s + 7 = Suc (Suc (Suc (Suc (Suc (Suc (Suc (length s)))))))"
    by simp
  then show ?thesis
    using b7 by (simp only:)
qed

lemma takeWhile_baseURL:
  assumes "\<forall>c \<in> set s. \<not> is_line_terminator c"
  shows "takeWhile (\<lambda>c. \<not> is_line_terminator c) (s @ js ''/api/v2'') = s @ js ''/api/v2''"
proof -
  have "\<forall>c \<in> set (js ''/api/v2''). \<not> is_line_terminator c"
    by (simp add: js_def is_line_terminator_def)
  with assms have "\<forall>c \<in> set (s @ js ''/api/v2''). \<not> is_line_terminator c"
    by auto
  then show ?thesis
    by (simp only: takeWhile_eq_all_conv)
qed

lemma match_space_baseURL:
  assumes "s \<noteq> []" and "\<forall>c \<in> set s. \<not> is_line_terminator c"
  shows "match_space (js ''https://'' @ s @ js ''/api/v2'') = Some s"
proof -
  let ?b = "js ''https://'' @ s @ js ''/api/v2''"
  have t8: "take 8 ?b = js ''https://''" and d8: "drop 8 ?b = s @ js ''/api/v2''"
    by (simp_all add: js_def)
  have len: "length (s @ js ''/api/v2'') = length s + 7"
    by (simp add: js_def)
  have at: "match_space_at ?b = Some s"
    unfolding match_space_at_def
    by (simp only: t8 d8 takeWhile_baseURL [OF assms(2)] len
        backtrack_api_suffix [OF assms(1)] if_True simp_thms)
  obtain c cs where "?b = c # cs"
    by (simp add: js_def)
  then show ?thesis
    using at by simp
qed

text \<open>
  C10 (as amended). For a client constructed with a non-empty space \<open>s\<close> that holds no
  line terminator and a non-empty API key, \<open>getIssueUrl k\<close> is
  \<open>"https://" + s + "/view/" + k\<close>: the space is recovered from \<open>baseURL\<close>.
\<close>

theorem getIssueUrl_recovers_space:
  assumes "s \<noteq> []" and "key \<noteq> []" and "\<forall>c \<in> set s. \<not> is_line_terminator c"
  shows "\<exists>client. BacklogAPIClient_constructor s key = Inr client
           \<and> getIssueUrl client k = js ''https://'' @ s @ js ''/view/'' @ k"
  using assms match_space_baseURL [OF assms(1) assms(3)]
  by (simp add: BacklogAPIClient_constructor_def getIssueUrl_def truthy_def)

theorem getIssueUrl_recovers_space_witness:
  "\<exists>client. BacklogAPIClient_constructor (js ''demo.backlog.com'') (js ''secret'') = Inr client
     \<and> getIssueUrl client (js ''PRJ-1'') = js ''https://demo.backlog.com/view/PRJ-1''"
proof -
  have "\<forall>c \<in> set (js ''demo.backlog.com''). \<not> is_line_terminator c"
    by (simp add: js_def is_line_terminator_def)
  moreover have "js ''demo.backlog.com'' \<noteq> []" and "js ''secret'' \<noteq> []"
    by (simp_all add: js_def)
  ultimately show ?thesis
    using getIssueUrl_recovers_space [of "js ''demo.backlog.com''" "js ''secret''" "js ''PRJ-1''"]
    by (simp add: js_def)
qed

text \<open>
  C10 (as stated) fails when the space holds a line feed: the group \<open>(.+)\<close> cannot
  cross it, the match fails and the space falls back to the empty string.
\<close>

theorem getIssueUrl_line_feed_counterexample:
  "BacklogAPIClient_constructor (js ''a'' @ [0x0A] @ js ''b'') (js ''secret'')
     = Inr \<lparr>baseURL = js ''https://a'' @ [0x0A] @ js ''b/api/v2'', apiKey = js ''secret'',
             defaultTimeout = 30000\<rparr>
   \<and> getIssueUrl \<lparr>baseURL = js ''https://a'' @ [0x0A] @ js ''b/api/v2'', apiKey = js ''secret'',
             defaultTimeout = 30000\<rparr> (js ''PRJ-1'') = js ''https:///view/PRJ-1''
   \<and> js ''https:///view/PRJ-1'' \<noteq> js ''https://'' @ (js ''a'' @ [0x0A] @ js ''b'') @ js ''/view/'' @ js ''PRJ-1''"
  by (simp add: BacklogAPIClient_constructor_def getIssueUrl_def truthy_def new_Error_def
      match_space_at_def is_line_terminator_def js_def)

subsection \<open>Error mapping of the REST client\<close>

lemma String_nat_401: "String_nat 401 = js ''401''"
  by (simp add: String_nat.simps [of 401] String_nat.simps [of 40] String_nat.simps [of 4]
      digit_def js_def)

lemma String_nat_500: "String_nat 500 = js ''500''"
  by (simp add: String_nat.simps [of 500] String_nat.simps [of 50] String_nat.simps [of 5]
      digit_def js_def)

lemma String_nat_502: "String_nat 502 = js ''502''"
  by (simp add: String_nat.simps [of 502] String_nat.simps [of 50] String_nat.simps [of 5]
      digit_def js_def)

text \<open>
  C3. \<open>handleErrorResponse\<close> always throws an \<open>Error\<close>. Its message is the invalid-key
  text for status 401, the not-found text for 404, the rate-limit text for 429; for every
  other status it is the messages of the API error body joined by \<open>", "\<close>, and the
  generic text when the body cannot be parsed (or carries no \<open>errors\<close>). In every case
  the text is followed by the suffix \<open>" (Status: <status>)"\<close>.
\<close>

theorem handleErrorResponse_message:
  "handleErrorResponse response =
     Inl (new_Error
       ((if status response = 401 then js ''Invalid API key or unauthorized access''
         else if status response = 404 then js ''Resource not found''
         else if status response = 429 then js ''Rate limit exceeded. Please try again later''
         else (case json response of
                 Inr errorData \<Rightarrow>
                   (case errors errorData of
                      Some es \<Rightarrow> join (js '', '') es
                    | None \<Rightarrow> js ''Backlog API error'')
               | Inl e \<Rightarrow> js ''Backlog API error''))
        @ js '' (Status: '' @ String_nat (status response) @ js '')''))"
  by (simp add: handleErrorResponse_def Let_def)

theorem handleErrorResponse_message_witness:
  "handleErrorResponse
     \<lparr>status = 401, json = Inr \<lparr>errors = Some [js ''Authentication failure.''], data = ()\<rparr>\<rparr>
     = Inl (new_Error (js ''Invalid API key or unauthorized access (Status: 401)''))
   \<and> handleErrorResponse
     \<lparr>status = 500, json = Inr \<lparr>errors = Some [js ''boom'', js ''bang''], data = ()\<rparr>\<rparr>
     = Inl (new_Error (js ''boom, bang (Status: 500)''))
   \<and> handleErrorResponse
     \<lparr>status = 502, json = (Inl (Error (js ''SyntaxError'') (js ''Unexpected token'')) :: thrown + unit json_value)\<rparr>
     = Inl (new_Error (js ''Backlog API error (Status: 502)''))"
  using
    handleErrorResponse_message
      [of "\<lparr>status = 401, json = Inr \<lparr>errors = Some [js ''Authentication failure.''], data = ()\<rparr>\<rparr>"]
    handleErrorResponse_message
      [of "\<lparr>status = 500, json = Inr \<lparr>errors = Some [js ''boom'', js ''bang''], data = ()\<rparr>\<rparr>"]
    handleErrorResponse_message
      [of "\<lparr>status = 502, json = (Inl (Error (js ''SyntaxError'') (js ''Unexpected token'')) :: thrown + unit json_value)\<rparr>"]
  by (simp add: String_nat_401 String_nat_500 String_nat_502 js_def)

subsection \<open>The API key on every request\<close>

lemma set_property_mem: "(k, v) \<in> set (set_property k v ps)"
  by (induction ps) auto

lemma append_params_keeps:
  "p \<in> set (searchParams u) \<Longrightarrow> p \<in> set (searchParams (append_params ps u))"
  by (induction ps arbitrary: u) (auto simp: searchParams_append_def split: option.splits)

lemma append_params_mem:
  "(k, Some v) \<in> set ps \<Longrightarrow> (k, v) \<in> set (searchParams (append_params ps u))"
proof (induction ps arbitrary: u)
  case Nil
  then show ?case by simp
next
  case (Cons p ps)
  obtain k' v' where p: "p = (k', v')" by (cases p)
  show ?case
  proof (cases "(k, Some v) = p")
    case True
    then show ?thesis
      using p by (auto intro!: append_params_keeps simp: searchParams_append_def)
  next
    case False
    then have "(k, Some v) \<in> set ps" using Cons.prems by auto
    then show ?thesis using Cons.IH p by simp
  qed
qed

lemma request_carries_apiKey:
  "\<forall>req \<in> set (snd (request net client endpoint options)).
     (js ''apiKey'', apiKey client) \<in> set (searchParams (url req))"
  by (auto simp: request_def Let_def append_params_mem set_property_mem split: sum.splits)

lemma upload_carries_apiKey:
  "\<forall>req \<in> set (snd (uploadAttachmentFromBlob net client blob filename)).
     (js ''apiKey'', apiKey client) \<in> set (searchParams (url req))"
  by (auto simp: uploadAttachmentFromBlob_def Let_def new_URL_def searchParams_append_def
      split: sum.splits)

lemma testConnection_requests:
  "snd (testConnection net client) = snd (getMyself net client)"
  by (simp add: testConnection_def split: prod.splits sum.splits)

lemma append_params_href: "href (append_params ps u) = href u"
  by (induction ps arbitrary: u) (auto simp: searchParams_append_def split: option.splits)

lemma request_sends:
  assumes "valid_url net (baseURL client @ path)"
  shows "\<exists>req. snd (request net client path options) = [req]
           \<and> href (url req) = baseURL client @ path
           \<and> (js ''apiKey'', apiKey client) \<in> set (searchParams (url req))"
  using assms
  by (simp add: request_def new_URL_def Let_def append_params_href append_params_mem
      set_property_mem)

lemma request_sends_nothing:
  assumes "\<not> valid_url net (baseURL client @ path)"
  shows "snd (request net client path options) = []"
  using assms by (simp add: request_def new_URL_def Let_def)

lemma upload_sends:
  assumes "valid_url net (baseURL client @ js ''/space/attachment'')"
  shows "\<exists>req. snd (uploadAttachmentFromBlob net client blob filename) = [req]
           \<and> href (url req) = baseURL client @ js ''/space/attachment''
           \<and> (js ''apiKey'', apiKey client) \<in> set (searchParams (url req))"
  using assms
  by (simp add: uploadAttachmentFromBlob_def new_URL_def Let_def searchParams_append_def)

lemma upload_sends_nothing:
  assumes "\<not> valid_url net (baseURL client @ js ''/space/attachment'')"
  shows "snd (uploadAttachmentFromBlob net client blob filename) = []"
  using assms by (simp add: uploadAttachmentFromBlob_def new_URL_def Let_def)

lemma fetched_cases:
  "(\<exists>blob filename. operation = UploadAttachmentFromBlob blob filename
       \<and> fetched net client operation
           = snd (uploadAttachmentFromBlob net client blob filename))
   \<or> (\<exists>options. fetched net client operation
           = snd (request net client (endpoint_of operation) options))"
  by (cases operation)
     (auto simp: getProjects_def getProject_def getIssueTypes_def getPriorities_def
        getUsers_def getCategories_def createIssue_def getMyself_def testConnection_requests)

text \<open>
  C5. Every operation of the client (the endpoints that go through \<open>request\<close>, and
  the attachment upload) hands exactly one request to \<open>fetch\<close> when the URL parser
  accepts its URL, and that request's URL is the base URL followed by the operation's
  path and has the pair \<open>apiKey = <the client's key>\<close> among its search parameters.
  When the parser refuses the URL nothing is fetched. So every request the client
  makes carries the key.
\<close>

theorem every_request_carries_apiKey:
  "(valid_url net (baseURL client @ endpoint_of operation) \<longrightarrow>
      (\<exists>req. fetched net client operation = [req]
         \<and> href (url req) = baseURL client @ endpoint_of operation
         \<and> (js ''apiKey'', apiKey client) \<in> set (searchParams (url req))))
   \<and> (\<not> valid_url net (baseURL client @ endpoint_of operation) \<longrightarrow>
      fetched net client operation = [])
   \<and> (\<forall>req \<in> set (fetched net client operation).
        (js ''apiKey'', apiKey client) \<in> set (searchParams (url req)))"
proof -
  consider (upload) blob filename
      where "operation = UploadAttachmentFromBlob blob filename"
        "fetched net client operation = snd (uploadAttachmentFromBlob net client blob filename)"
    | (req) options
      where "fetched net client operation = snd (request net client (endpoint_of operation) options)"
    using fetched_cases [of operation net client] by blast
  then show ?thesis
  proof cases
    case upload
    then show ?thesis
      using upload_sends [of net client blob filename]
        upload_sends_nothing [of net client blob filename]
        upload_carries_apiKey [of net client blob filename]
      by auto
  next
    case req
    then show ?thesis
      using request_sends [of net client "endpoint_of operation" options]
        request_sends_nothing [of net client "endpoint_of operation" options]
        request_carries_apiKey [of net client "endpoint_of operation" options]
      by auto
  qed
qed


theorem every_request_carries_apiKey_witness:
  "map (\<lambda>operation. map (\<lambda>req. (href (url req), searchParams (url req)))
                       (fetched example_net example_client operation))
     [GetProjects, GetProject (js ''PRJ''), GetIssueTypes (js ''PRJ''), GetPriorities,
      GetUsers (js ''PRJ''), GetCategories (js ''PRJ''),
      CreateIssue [(js ''projectId'', Scalar (js ''12'')), (js ''summary'', Scalar (js ''Hi''))],
      UploadAttachmentFromBlob \<lparr>bytes = [65, 66, 67], blob_type = js ''image/png''\<rparr>
        (js ''screenshot.png''),
      GetMyself, TestConnection]
   = [[(js ''https://demo.backlog.com/api/v2/projects'', [(js ''apiKey'', js ''secret'')])],
      [(js ''https://demo.backlog.com/api/v2/projects/PRJ'', [(js ''apiKey'', js ''secret'')])],
      [(js ''https://demo.backlog.com/api/v2/projects/PRJ/issueTypes'',
        [(js ''apiKey'', js ''secret'')])],
      [(js ''https://demo.backlog.com/api/v2/priorities'', [(js ''apiKey'', js ''secret'')])],
      [(js ''https://demo.backlog.com/api/v2/projects/PRJ/users'',
        [(js ''apiKey'', js ''secret'')])],
      [(js ''https://demo.backlog.com/api/v2/projects/PRJ/categories'',
        [(js ''apiKey'', js ''secret'')])],
      [(js ''https://demo.backlog.com/api/v2/issues'', [(js ''apiKey'', js ''secret'')])],
      [(js ''https://demo.backlog.com/api/v2/space/attachment'',
        [(js ''apiKey'', js ''secret'')])],
      [(js ''https://demo.backlog.com/api/v2/users/myself'', [(js ''apiKey'', js ''secret'')])],
      [(js ''https://demo.backlog.com/api/v2/users/myself'', [(js ''apiKey'', js ''secret'')])]]"
  using
    every_request_carries_apiKey [of example_net example_client GetProjects]
    every_request_carries_apiKey
      [of example_net example_client
          "UploadAttachmentFromBlob \<lparr>bytes = [65, 66, 67], blob_type = js ''image/png''\<rparr>
             (js ''screenshot.png'')"]
    every_request_carries_apiKey [of example_net example_client TestConnection]
  by (simp add: getProjects_def getProject_def getIssueTypes_def getPriorities_def
      getUsers_def getCategories_def createIssue_def getMyself_def testConnection_requests
      uploadAttachmentFromBlob_def request_def no_options_def new_URL_def
      searchParams_append_def Let_def example_net_def example_client_def js_def)

subsection \<open>The two copies of \<open>dataURLtoBlob\<close>\<close>

text \<open>\<open>split\<close> never returns an empty array, and the byte loop copies the low 8 bits of
  every code unit of \<open>bstr\<close>.\<close>

lemma split_on_nonempty: "split_on sep s \<noteq> []"
  by (induction s) (auto split: list.splits)

lemma fill_u8arr_prefix:
  assumes "n \<le> length bstr" and "length arr = length bstr"
    and "drop n arr = map ucast (drop n bstr)"
  shows "fill_u8arr n bstr arr = map ucast bstr"
  using assms
proof (induction n arbitrary: arr)
  case 0
  then show ?case by simp
next
  case (Suc n)
  have n: "n < length bstr" using Suc.prems(1) by simp
  have "drop n (arr[n := ucast (bstr ! n)]) = map ucast (drop n bstr)"
  proof -
    have "drop n (arr[n := ucast (bstr ! n)]) = ucast (bstr ! n) # drop (Suc n) arr"
      using n Suc.prems(2)
      by (metis Cons_nth_drop_Suc drop_update_cancel length_list_update lessI nth_list_update_eq)
    also have "\<dots> = ucast (bstr ! n) # map ucast (drop (Suc n) bstr)"
      using Suc.prems(3) by simp
    also have "\<dots> = map ucast (drop n bstr)"
      using n by (simp add: Cons_nth_drop_Suc [symmetric])
    finally show ?thesis .
  qed
  then show ?case
    using Suc.IH [of "arr[n := ucast (bstr ! n)]"] Suc.prems n by simp
qed

lemma fill_u8arr_map:
  "fill_u8arr (length bstr) bstr (replicate (length bstr) 0) = map ucast bstr"
  by (rule fill_u8arr_prefix) simp_all

lemma dataURLtoBlob_example:
  "dataURLtoBlob (js ''data:image/png;base64,QUJD'')
     = Inr \<lparr>bytes = [65, 66, 67], blob_type = js ''image/png''\<rparr>"
  by (simp add: dataURLtoBlob_def atob_def strip_padding_def is_ascii_whitespace_def
      b64_value_def new_Blob_def normalize_type_def ascii_lower_def truthy_def
      is_line_terminator_def Let_def js_def)

text \<open>
  C8. The copy of \<open>dataURLtoBlob\<close> in the content script and the copy in the popup are
  extensionally equal: on every string both throw the same error or both return a
  \<open>Blob\<close> with the same bytes and the same type.
\<close>

theorem dataURLtoBlob_copies_equal:
  "dataURLtoBlob_content s = dataURLtoBlob s"
  by (simp only: dataURLtoBlob_content_def dataURLtoBlob_def)

subsection \<open>Screenshot capture failures\<close>

text \<open>
  C7 (as amended). When the capture service fails with an instance of \<open>Error\<close>
  (there is no active tab, or \<open>captureVisibleTab\<close> throws), the background listener
  responds with \<open>success = false\<close> and the error's message, and
  \<open>handleCaptureScreenshot\<close> returns without throwing, with that message as the error
  text when it is not empty and the generic capture-failure text when it is empty. On
  success the data URL becomes the screenshot.
\<close>

theorem capture_failure_surfaces_message:
  "(captureScreenshot browser = Inl e \<and> instanceof_Error e \<longrightarrow>
      onMessage browser (js ''CAPTURE_SCREENSHOT'')
        = Some \<lparr>success = False, dataUrl = None, error = Some (message e)\<rparr>
      \<and> fst (capture_flow browser st) = Inr ()
      \<and> st_errorMessage (snd (capture_flow browser st))
          = (if message e \<noteq> [] then message e else MSG_CAPTURE_FAILED))
   \<and> (captureScreenshot browser = Inr d \<longrightarrow>
      onMessage browser (js ''CAPTURE_SCREENSHOT'')
        = Some \<lparr>success = True, dataUrl = Some d, error = None\<rparr>
      \<and> fst (capture_flow browser st) = Inr ()
      \<and> st_screenshotDataUrl (snd (capture_flow browser st)) = Some d)
   \<and> (tabs_query browser = Inr [] \<longrightarrow>
      captureScreenshot browser = Inl (new_Error (js ''No active tab found'')))
   \<and> (tabs_query browser = Inr (tab # tabs) \<and> (tab_id tab = None \<or> tab_id tab = Some 0)
        \<longrightarrow>
      captureScreenshot browser = Inl (new_Error (js ''No active tab found'')))
   \<and> (tabs_query browser = Inr (tab # tabs) \<and> tab_id tab = Some i \<and> i \<noteq> 0
       \<and> captureVisibleTab browser (windowId tab) = Inl x \<longrightarrow>
      captureScreenshot browser = Inl x)"
  by (cases e)
     (auto simp: capture_flow_def onMessage_def handleCaptureScreenshot_def
        captureScreenshot_def instanceof_Error_def truthy_def Let_def)

theorem capture_failure_surfaces_message_witness:
  "st_errorMessage (snd (capture_flow example_browser_no_tab example_popup))
     = js ''No active tab found''
   \<and> st_errorMessage
       (snd (capture_flow (example_browser (Inl (new_Error (js ''Cannot capture'')))) example_popup))
     = js ''Cannot capture''
   \<and> st_screenshotDataUrl
       (snd (capture_flow (example_browser (Inr (js ''data:image/png;base64,QUJD''))) example_popup))
     = Some (js ''data:image/png;base64,QUJD'')"
  using
    capture_failure_surfaces_message
      [of example_browser_no_tab "new_Error (js ''No active tab found'')" example_popup]
    capture_failure_surfaces_message
      [of "example_browser (Inl (new_Error (js ''Cannot capture'')))"
          "new_Error (js ''Cannot capture'')" example_popup]
    capture_failure_surfaces_message
      [of "example_browser (Inr (js ''data:image/png;base64,QUJD''))" _ _
          "js ''data:image/png;base64,QUJD''"]
  by (simp add: captureScreenshot_def example_browser_def example_browser_no_tab_def
      new_Error_def instanceof_Error_def js_def)

text \<open>
  C7 (as stated) fails for an error whose message is the empty string: the listener
  forwards the empty message and the popup shows the generic text, not that message.
\<close>

theorem capture_empty_message_counterexample:
  "captureScreenshot (example_browser (Inl (new_Error []))) = Inl (new_Error [])
   \<and> onMessage (example_browser (Inl (new_Error []))) (js ''CAPTURE_SCREENSHOT'')
       = Some \<lparr>success = False, dataUrl = None, error = Some []\<rparr>
   \<and> st_errorMessage (snd (capture_flow (example_browser (Inl (new_Error []))) example_popup))
       = MSG_CAPTURE_FAILED
   \<and> MSG_CAPTURE_FAILED \<noteq> []"
  by (simp add: capture_flow_def onMessage_def handleCaptureScreenshot_def captureScreenshot_def
      example_browser_def new_Error_def instanceof_Error_def truthy_def MSG_CAPTURE_FAILED_def
      Let_def)

subsection \<open>The staged record written by the popup\<close>

lemma String_nat_12: "String_nat 12 = js ''12''"
  by (simp add: String_nat.simps [of 12] String_nat.simps [of "Suc 0"] digit_def js_def)

lemma openBacklogIssuePage_writes_timestamp:
  assumes "find (\<lambda>p. String_nat (project_id p) = st_selectedProjectId st) (st_projects st) = Some p"
    and "st_space st = Some sp" and "sp \<noteq> []"
  shows "map_option timestamp (local_storage (openBacklogIssuePage st w) STORAGE_KEY)
           = Some (Some (clock w))"
  using assms
  by (simp add: openBacklogIssuePage_def storage_local_set_def truthy_def Let_def)

lemma openBacklogIssuePage_part_001_writes_no_timestamp:
  assumes "find (\<lambda>p. String_nat (project_id p) = st_selectedProjectId st) (st_projects st) = Some p"
    and "st_space st = Some sp" and "sp \<noteq> []"
  shows "map_option timestamp (local_storage (openBacklogIssuePage_part_001 st w) STORAGE_KEY)
           = Some None"
  using assms
  by (simp add: openBacklogIssuePage_part_001_def storage_local_set_def truthy_def Let_def)

text \<open>
  C4. The record staged by \<open>openBacklogIssuePage\<close> should carry a \<open>timestamp\<close> set to
  the write time. The copy in \<open>src/popup.tsx\<close> does; the copy in the source file
  \<open>part_001\<close> stores the same six form fields and no \<open>timestamp\<close>. Both are
  evaluated here on the same popup state, at time 1000; the two lemmas above say the
  same for every popup state in which the function writes.
\<close>

theorem part_001_record_has_no_timestamp:
  "local_storage (openBacklogIssuePage example_popup (example_world None 1000)) STORAGE_KEY
     = Some \<lparr>summary = Some (js ''Fix login''),
             description = Some (js ''URL: https://example.com/''),
             issueTypeId = Some (js ''3''), priorityId = Some (js ''2''),
             assigneeId = None, screenshotDataUrl = None, timestamp = Some 1000\<rparr>
   \<and> local_storage (openBacklogIssuePage_part_001 example_popup (example_world None 1000))
       STORAGE_KEY
     = Some \<lparr>summary = Some (js ''Fix login''),
             description = Some (js ''URL: https://example.com/''),
             issueTypeId = Some (js ''3''), priorityId = Some (js ''2''),
             assigneeId = None, screenshotDataUrl = None, timestamp = None\<rparr>"
proof -
  have f: "find (\<lambda>p. String_nat (project_id p) = st_selectedProjectId example_popup)
             (st_projects example_popup) = Some \<lparr>project_id = 12, projectKey = js ''PRJ''\<rparr>"
    by (simp add: example_popup_def String_nat_12)
  have t: "trim (st_title example_popup) = js ''Fix login''"
    and d: "trim (st_description example_popup) = js ''URL: https://example.com/''"
    by (simp_all add: example_popup_def trim_def is_js_whitespace_def is_line_terminator_def
        js_def)
  have rest: "st_space example_popup = Some (js ''demo.backlog.com'')"
    "st_selectedIssueTypeId example_popup = js ''3''"
    "st_selectedPriorityId example_popup = js ''2''"
    "st_selectedAssigneeId example_popup = []"
    "st_screenshotDataUrl example_popup = None"
    by (simp_all add: example_popup_def js_def)
  have ne: "js ''demo.backlog.com'' \<noteq> []" "js ''Fix login'' \<noteq> []"
    "js ''URL: https://example.com/'' \<noteq> []" "js ''3'' \<noteq> []" "js ''2'' \<noteq> []"
    by (simp_all add: js_def)
  show ?thesis
    by (simp add: openBacklogIssuePage_def openBacklogIssuePage_part_001_def f t d rest ne
        storage_local_set_def or_null_def truthy_def Let_def example_world_def)
qed

subsection \<open>Frame conditions of the content script's steps\<close>

lemma static_fields:
  "static_field local_storage" "static_field storage_calls"
  "static_field body_children" "static_field head_children"
  by (simp_all add: static_field_def)

lemma preserves_return: "preserves p (io_return x)"
  by (simp add: preserves_def io_return_def)

lemma preserves_result: "preserves p (io_result r)"
  by (simp add: preserves_def io_result_def)

lemma preserves_bind:
  assumes "preserves p m" and "\<And>x. preserves p (f x)"
  shows "preserves p (io_bind m f)"
proof -
  have "p (snd (io_bind m f w)) = p w" for w
  proof (cases "m w")
    case (Pair r w1)
    have w1: "p w1 = p w"
      using assms(1) Pair by (auto simp: preserves_def dest: spec [of _ w])
    show ?thesis
    proof (cases r)
      case (Inl e)
      then show ?thesis using Pair w1 by (simp add: io_bind_def)
    next
      case (Inr x)
      have "p (snd (f x w1)) = p w1"
        using assms(2) [of x] by (simp add: preserves_def)
      then show ?thesis using Pair Inr w1 by (simp add: io_bind_def)
    qed
  qed
  then show ?thesis by (simp add: preserves_def)
qed

lemma preserves_effect: "static_field p \<Longrightarrow> preserves p (effect e)"
  by (simp add: preserves_def effect_def static_field_def)

lemma preserves_sleep: "static_field p \<Longrightarrow> preserves p (sleep ms)"
  by (simp add: preserves_def sleep_def static_field_def)

lemma preserves_queries:
  "preserves p (document_querySelector sel)"
  "preserves p (element_querySelector el sel)"
  "preserves p (element_getAttribute el a)"
  by (simp_all add: preserves_def document_querySelector_def element_querySelector_def
      element_getAttribute_def)

lemma preserves_setReactInputValue:
  "static_field p \<Longrightarrow> preserves p (setReactInputValue el v)"
  by (simp add: preserves_def setReactInputValue_def io_bind_def effect_def static_field_def)

lemma preserves_pasteImageToEditor:
  assumes "static_field p"
  shows "preserves p (pasteImageToEditor editor s)"
  unfolding pasteImageToEditor_def
  using assms
  by (intro preserves_bind preserves_result preserves_effect)
     (simp_all add: preserves_def effect_def io_return_def static_field_def)

lemma preserves_selectComboboxOption:
  assumes "static_field p"
  shows "preserves p (selectComboboxOption labelId optionId)"
  unfolding selectComboboxOption_def
  using assms
  by (auto intro!: preserves_bind preserves_queries preserves_effect preserves_sleep
      preserves_return split: option.splits)

lemma preserves_fill_summary:
  "static_field p \<Longrightarrow> preserves p (fill_summary formData)"
  unfolding fill_summary_def
  by (auto intro!: preserves_bind preserves_queries preserves_return
      preserves_setReactInputValue split: option.splits)

lemma preserves_fill_description:
  "static_field p \<Longrightarrow> preserves p (fill_description formData descEditor)"
  unfolding fill_description_def
  by (auto intro!: preserves_bind preserves_effect preserves_return split: option.splits)

lemma preserves_paste_screenshot:
  "static_field p \<Longrightarrow> preserves p (paste_screenshot formData descEditor)"
  unfolding paste_screenshot_def
  by (auto intro!: preserves_bind preserves_sleep preserves_return
      preserves_pasteImageToEditor split: option.splits)

lemma preserves_select_field:
  "static_field p \<Longrightarrow> preserves p (select_field labelId v)"
  unfolding select_field_def
  by (auto intro!: preserves_bind preserves_return preserves_selectComboboxOption
      split: option.splits)

lemmas preserves_steps =
  preserves_sleep preserves_fill_summary preserves_queries preserves_fill_description
  preserves_paste_screenshot preserves_select_field

lemma preserves_show_notification_storage:
  "preserves local_storage show_notification" "preserves storage_calls show_notification"
  by (simp_all add: preserves_def show_notification_def)

lemma preserves_fill_fields_storage:
  "preserves local_storage (fill_fields formData)"
  "preserves storage_calls (fill_fields formData)"
  unfolding fill_fields_def
  by (intro preserves_bind preserves_steps static_fields preserves_show_notification_storage)+

subsection \<open>The three exits of \<open>fillForm\<close>\<close>

lemma fillForm_absent:
  assumes "local_storage w STORAGE_KEY = None"
  shows "fillForm w = (Inr (), w\<lparr>storage_calls := storage_calls w @ [Get STORAGE_KEY]\<rparr>)"
  using assms by (simp add: fillForm_def io_bind_def io_return_def storage_local_get_def)

lemma fillForm_early:
  assumes "local_storage w STORAGE_KEY = Some formData"
    and "too_old (clock w) formData \<or> all_falsy formData"
  shows "fillForm w =
           (Inr (), w\<lparr>local_storage := (local_storage w)(STORAGE_KEY := None),
                      storage_calls := storage_calls w @ [Get STORAGE_KEY, Remove STORAGE_KEY]\<rparr>)"
  using assms
  by (auto simp: fillForm_def io_bind_def io_return_def storage_local_get_def
      storage_local_remove_def Date_now_def all_falsy_def)

lemma fillForm_fill:
  assumes "local_storage w STORAGE_KEY = Some formData"
    and "\<not> too_old (clock w) formData" and "\<not> all_falsy formData"
  shows "fillForm w =
           fill_fields formData
             (w\<lparr>local_storage := (local_storage w)(STORAGE_KEY := None),
                storage_calls := storage_calls w @ [Get STORAGE_KEY, Remove STORAGE_KEY]\<rparr>)"
  using assms
  by (auto simp: fillForm_def io_bind_def io_return_def storage_local_get_def
      storage_local_remove_def Date_now_def all_falsy_def)

lemma fillForm_storage_present:
  assumes "local_storage w STORAGE_KEY = Some formData"
  shows "storage_calls (snd (fillForm w)) = storage_calls w @ [Get STORAGE_KEY, Remove STORAGE_KEY]
       \<and> local_storage (snd (fillForm w)) = (local_storage w)(STORAGE_KEY := None)"
proof (cases "too_old (clock w) formData \<or> all_falsy formData")
  case True
  then show ?thesis
    using fillForm_early [OF assms] by simp
next
  case False
  then have "fillForm w =
           fill_fields formData
             (w\<lparr>local_storage := (local_storage w)(STORAGE_KEY := None),
                storage_calls := storage_calls w @ [Get STORAGE_KEY, Remove STORAGE_KEY]\<rparr>)"
    using fillForm_fill [OF assms] by simp
  then show ?thesis
    using preserves_fill_fields_storage [of formData]
    by (simp add: preserves_def)
qed

text \<open>
  A fresh record with a summary is applied: the input is set through the native
  setter, the two events are dispatched and the notification is appended. A record
  without \<open>timestamp\<close> is applied in the same way however late it is read.
\<close>

lemma fresh_record_is_applied_example:
  "effects (snd (fillForm
      (example_world (Some (example_record (Some (js ''Hi'')) None (Some 1000))) 2000)))
     = [NativeSetValue 1 False (js ''Hi''), DispatchEvent 1 (js ''input''),
        DispatchEvent 1 (js ''change'')]
   \<and> body_children (snd (fillForm
      (example_world (Some (example_record (Some (js ''Hi'')) None (Some 1000))) 2000)))
     = [Div NOTIFICATION_TEXT]"
proof -
  have ne: "js ''Hi'' \<noteq> []"
    by (simp add: js_def)
  show ?thesis
    by (simp add: fillForm_def fill_fields_def fill_summary_def fill_description_def
        paste_screenshot_def select_field_def show_notification_def setReactInputValue_def ne
        io_bind_def io_return_def storage_local_get_def storage_local_remove_def
        Date_now_def sleep_def document_querySelector_def effect_def
        too_old_def MAX_AGE_MS_def truthy_opt_def truthy_def
        example_world_def example_record_def example_page_def)
qed

lemma untimestamped_record_is_applied_example:
  "effects (snd (fillForm
      (example_world (Some (example_record (Some (js ''Hi'')) None None)) 999999)))
     = [NativeSetValue 1 False (js ''Hi''), DispatchEvent 1 (js ''input''),
        DispatchEvent 1 (js ''change'')]"
proof -
  have ne: "js ''Hi'' \<noteq> []"
    by (simp add: js_def)
  show ?thesis
    by (simp add: fillForm_def fill_fields_def fill_summary_def fill_description_def
        paste_screenshot_def select_field_def show_notification_def setReactInputValue_def ne
        io_bind_def io_return_def storage_local_get_def storage_local_remove_def
        Date_now_def sleep_def document_querySelector_def effect_def
        too_old_def MAX_AGE_MS_def truthy_opt_def truthy_def
        example_world_def example_record_def example_page_def)
qed

text \<open>
  C1. When the staged record read by \<open>fillForm\<close> has a timestamp \<open>t\<close> and the time of the
  age check minus \<open>t\<close> exceeds 5000 milliseconds, \<open>fillForm\<close> returns normally and the
  page is as it was: nothing was done to an element (no input value, editor content,
  click or paste), nothing was appended to the head or the body (no notification) and
  no timer was started.
\<close>

theorem stale_record_never_applied:
  assumes "local_storage w STORAGE_KEY = Some formData"
    and "timestamp formData = Some t"
    and "clock w - t > 5000"
  shows "fst (fillForm w) = Inr ()
       \<and> effects (snd (fillForm w)) = effects w
       \<and> head_children (snd (fillForm w)) = head_children w
       \<and> body_children (snd (fillForm w)) = body_children w
       \<and> timers (snd (fillForm w)) = timers w"
proof -
  have "too_old (clock w) formData"
    using assms(2,3) by (simp add: too_old_def MAX_AGE_MS_def)
  then show ?thesis
    using fillForm_early [OF assms(1)] by simp
qed

theorem stale_record_never_applied_witness:
  "fst (fillForm (example_world (Some (example_record (Some (js ''Hi'')) None (Some 1000))) 7000))
     = Inr ()
   \<and> effects (snd (fillForm
        (example_world (Some (example_record (Some (js ''Hi'')) None (Some 1000))) 7000))) = []
   \<and> body_children (snd (fillForm
        (example_world (Some (example_record (Some (js ''Hi'')) None (Some 1000))) 7000))) = []"
  using stale_record_never_applied
    [of "example_world (Some (example_record (Some (js ''Hi'')) None (Some 1000))) 7000"
        "example_record (Some (js ''Hi'')) None (Some 1000)" 1000]
  by (simp add: example_world_def example_record_def)

text \<open>
  C2. When a staged record is under the key \<open>backlogQuickFormData\<close>, a run of
  \<open>fillForm\<close> makes exactly one \<open>remove\<close> call (after its one \<open>get\<close>) and the key is gone
  afterwards, whatever the age check says, whether the fields are used and whether
  the filling throws. When no record is there, the storage content is unchanged and
  nothing is removed.
\<close>

theorem record_removed_exactly_once:
  "(local_storage w STORAGE_KEY = Some formData \<longrightarrow>
      storage_calls (snd (fillForm w))
        = storage_calls w @ [Get STORAGE_KEY, Remove STORAGE_KEY]
      \<and> local_storage (snd (fillForm w)) = (local_storage w)(STORAGE_KEY := None))
   \<and> (local_storage w STORAGE_KEY = None \<longrightarrow>
      storage_calls (snd (fillForm w)) = storage_calls w @ [Get STORAGE_KEY]
      \<and> local_storage (snd (fillForm w)) = local_storage w)"
  using fillForm_storage_present [of w formData] fillForm_absent [of w]
  by auto

theorem record_removed_exactly_once_witness:
  "storage_calls (snd (fillForm
      (example_world (Some (example_record (Some (js ''Hi'')) None (Some 1000))) 2000)))
     = [Get STORAGE_KEY, Remove STORAGE_KEY]
   \<and> local_storage (snd (fillForm
      (example_world (Some (example_record (Some (js ''Hi'')) None (Some 1000))) 2000))) STORAGE_KEY
     = None
   \<and> storage_calls (snd (fillForm (example_world None 2000))) = [Get STORAGE_KEY]"
  using record_removed_exactly_once
    [of "example_world (Some (example_record (Some (js ''Hi'')) None (Some 1000))) 2000"
        "example_record (Some (js ''Hi'')) None (Some 1000)"]
    record_removed_exactly_once [of "example_world None 2000"]
  by (simp add: example_world_def)

text \<open>
  C9. When the staged record passes the age check and its six fields are all \<open>null\<close>,
  \<open>fillForm\<close> returns normally and leaves the page untouched (no effect on an element,
  nothing appended, no timer); the record is removed from the storage all the same.
\<close>

theorem empty_record_leaves_page_untouched:
  assumes "local_storage w STORAGE_KEY = Some formData"
    and "timestamp formData = Some t"
    and "clock w - t \<le> 5000"
    and "summary formData = None" and "description formData = None"
    and "issueTypeId formData = None" and "priorityId formData = None"
    and "assigneeId formData = None" and "screenshotDataUrl formData = None"
  shows "fst (fillForm w) = Inr ()
       \<and> effects (snd (fillForm w)) = effects w
       \<and> head_children (snd (fillForm w)) = head_children w
       \<and> body_children (snd (fillForm w)) = body_children w
       \<and> timers (snd (fillForm w)) = timers w
       \<and> local_storage (snd (fillForm w)) STORAGE_KEY = None
       \<and> storage_calls (snd (fillForm w))
           = storage_calls w @ [Get STORAGE_KEY, Remove STORAGE_KEY]"
proof -
  have "all_falsy formData"
    using assms(4-9) by (simp add: all_falsy_def truthy_opt_def)
  then show ?thesis
    using fillForm_early [OF assms(1)] by simp
qed

theorem empty_record_leaves_page_untouched_witness:
  "fst (fillForm (example_world (Some (example_record None None (Some 1000))) 2000)) = Inr ()
   \<and> effects (snd (fillForm (example_world (Some (example_record None None (Some 1000))) 2000)))
       = []
   \<and> body_children (snd (fillForm
        (example_world (Some (example_record None None (Some 1000))) 2000))) = []
   \<and> local_storage (snd (fillForm
        (example_world (Some (example_record None None (Some 1000))) 2000))) STORAGE_KEY = None"
  using empty_record_leaves_page_untouched
    [of "example_world (Some (example_record None None (Some 1000))) 2000"
        "example_record None None (Some 1000)" 1000]
  by (simp add: example_world_def example_record_def)

subsection \<open>Errors inside \<open>fillForm\<close>\<close>

lemma quiet_bind:
  assumes "preserves body_children m" and "preserves head_children m"
    and "\<And>x. fails_quietly (f x)"
  shows "fails_quietly (io_bind m f)"
proof -
  have "body_children w' = body_children w \<and> head_children w' = head_children w"
    if run: "io_bind m f w = (Inl e, w')" for w e w'
  proof (cases "m w")
    case (Pair r w1)
    have w1: "body_children w1 = body_children w" "head_children w1 = head_children w"
      using assms(1,2) Pair by (auto simp: preserves_def dest: spec [of _ w])
    show ?thesis
    proof (cases r)
      case (Inl e1)
      then show ?thesis using Pair run w1 by (simp add: io_bind_def)
    next
      case (Inr x)
      then have "f x w1 = (Inl e, w')"
        using Pair run by (simp add: io_bind_def)
      then show ?thesis
        using assms(3) [of x] w1 by (auto simp: fails_quietly_def)
    qed
  qed
  then show ?thesis
    unfolding fails_quietly_def by blast
qed

lemma quiet_show_notification: "fails_quietly show_notification"
  by (simp add: fails_quietly_def show_notification_def)

lemma quiet_fill_fields: "fails_quietly (fill_fields formData)"
  unfolding fill_fields_def
  by (intro quiet_bind preserves_steps static_fields quiet_show_notification)

lemma quiet_fillForm: "fails_quietly fillForm"
proof -
  have "body_children w' = body_children w \<and> head_children w' = head_children w"
    if run: "fillForm w = (Inl e, w')" for w e w'
  proof (cases "local_storage w STORAGE_KEY")
    case None
    then show ?thesis using fillForm_absent [of w] run by simp
  next
    case (Some formData)
    show ?thesis
    proof (cases "too_old (clock w) formData \<or> all_falsy formData")
      case True
      then show ?thesis using fillForm_early [OF Some] run by simp
    next
      case False
      then have "fill_fields formData
             (w\<lparr>local_storage := (local_storage w)(STORAGE_KEY := None),
                storage_calls := storage_calls w @ [Get STORAGE_KEY, Remove STORAGE_KEY]\<rparr>)
             = (Inl e, w')"
        using fillForm_fill [OF Some] run by simp
      then show ?thesis
        using quiet_fill_fields [of formData] unfolding fails_quietly_def
        by fastforce
    qed
  qed
  then show ?thesis
    unfolding fails_quietly_def by blast
qed

lemma preserves_fillForm_console: "preserves console fillForm"
proof -
  have c: "static_field console"
    by (simp add: static_field_def)
  have "preserves console (fill_fields formData)" for formData
    unfolding fill_fields_def
    by (intro preserves_bind preserves_steps c)
       (simp add: preserves_def show_notification_def)
  then show ?thesis
    unfolding fillForm_def
    by (auto intro!: preserves_bind preserves_return split: option.splits)
       (simp_all add: preserves_def storage_local_get_def storage_local_remove_def Date_now_def)
qed

lemma content_script_world:
  "snd (content_script w) = (if isExtensionContextValid w then snd (fillForm w) else w)"
  by (simp add: content_script_def split: prod.splits sum.splits)

lemma atob_abc_fails:
  "dataURLtoBlob_content (js ''abc'')
     = Inl (DOMException (js ''InvalidCharacterError'')
              (js ''The string to be decoded is not correctly encoded.''))"
  by (simp add: dataURLtoBlob_content_def atob_def strip_padding_def is_ascii_whitespace_def
      Let_def js_def)

lemma fillForm_bad_screenshot:
  "fst (fillForm (example_world (Some (example_record None (Some (js ''abc'')) (Some 1000))) 2000))
     = Inl (DOMException (js ''InvalidCharacterError'')
              (js ''The string to be decoded is not correctly encoded.''))"
proof -
  have ne: "js ''abc'' \<noteq> []"
    by (simp add: js_def)
  show ?thesis
    by (simp add: fillForm_def fill_fields_def fill_summary_def fill_description_def
        paste_screenshot_def pasteImageToEditor_def atob_abc_fails ne
        io_bind_def io_return_def io_result_def storage_local_get_def storage_local_remove_def
        Date_now_def sleep_def document_querySelector_def
        too_old_def MAX_AGE_MS_def truthy_opt_def truthy_def
        example_world_def example_record_def example_page_def)
qed

text \<open>
  C6. The entry point of the content script never rejects, whatever \<open>fillForm\<close> does,
  and it reports nothing: the console is untouched, when \<open>fillForm\<close> has thrown nothing
  has been appended to the head or the body of the page, and the \<open>catch\<close> handler does
  nothing at all (the world after the entry point is the world \<open>fillForm\<close> left).
\<close>

theorem autofill_errors_swallowed:
  "fst (content_script w) = Inr ()
   \<and> console (snd (content_script w)) = console w
   \<and> (fst (fillForm w) = Inl e \<longrightarrow>
        body_children (snd (content_script w)) = body_children w
        \<and> head_children (snd (content_script w)) = head_children w)
   \<and> snd (content_script w) = (if isExtensionContextValid w then snd (fillForm w) else w)"
proof -
  have ret: "fst (content_script w) = Inr ()"
    by (simp add: content_script_def split: prod.splits sum.splits)
  have con: "console (snd (content_script w)) = console w"
    using preserves_fillForm_console by (simp add: content_script_world preserves_def)
  have "body_children (snd (fillForm w)) = body_children w
        \<and> head_children (snd (fillForm w)) = head_children w"
    if "fst (fillForm w) = Inl e"
  proof -
    have "fillForm w = (Inl e, snd (fillForm w))"
      using that by (cases "fillForm w") simp
    then show ?thesis
      using quiet_fillForm unfolding fails_quietly_def by blast
  qed
  then show ?thesis
    using ret con by (simp add: content_script_world)
qed

theorem autofill_errors_swallowed_witness:
  "fst (fillForm (example_world (Some (example_record None (Some (js ''abc'')) (Some 1000))) 2000))
     = Inl (DOMException (js ''InvalidCharacterError'')
              (js ''The string to be decoded is not correctly encoded.''))
   \<and> fst (content_script
        (example_world (Some (example_record None (Some (js ''abc'')) (Some 1000))) 2000)) = Inr ()
   \<and> body_children (snd (content_script
        (example_world (Some (example_record None (Some (js ''abc'')) (Some 1000))) 2000))) = []"
proof -
  let ?w = "example_world (Some (example_record None (Some (js ''abc'')) (Some 1000))) 2000"
  let ?e = "DOMException (js ''InvalidCharacterError'')
              (js ''The string to be decoded is not correctly encoded.'')"
  have swallowed: "fst (content_script ?w) = Inr ()"
    and quiet: "fst (fillForm ?w) = Inl ?e \<longrightarrow>
                  body_children (snd (content_script ?w)) = body_children ?w
                  \<and> head_children (snd (content_script ?w)) = head_children ?w"
    using autofill_errors_swallowed [of ?w ?e] by blast+
  have "body_children ?w = []"
    by (simp add: example_world_def)
  then show ?thesis
    using swallowed quiet fillForm_bad_screenshot by simp
qed


end
